theory Spec2Isabelle
  imports Main
begin

section \<open>JavaScript values used by the facilitator\<close>

text \<open>
  Strings are lists of code units; the model covers code units below 256 (the Latin-1
  range), which contains every character of a Concordium address, a hash, a decimal
  amount and an asset descriptor.  A thrown JavaScript value is an element of
  \<open>js_error\<close>; a computation that may throw returns \<open>js_error + 'a\<close>.
\<close>

datatype js_error = SyntaxError | Thrown string

definition truthy :: "string \<Rightarrow> bool" where
  "truthy s = (s \<noteq> [])"

definition lowerChar :: "char \<Rightarrow> char" where
  "lowerChar c =
     (let n = (of_char c :: int)
      in if (65 \<le> n \<and> n \<le> 90) \<or> (192 \<le> n \<and> n \<le> 214) \<or> (216 \<le> n \<and> n \<le> 222)
         then char_of (n + 32) else c)"

definition toLowerCase :: "string \<Rightarrow> string" where
  "toLowerCase s = map lowerChar s"

definition isStrWhiteSpace :: "char \<Rightarrow> bool" where
  "isStrWhiteSpace c = ((of_char c :: int) \<in> {9, 10, 11, 12, 13, 32, 160})"

definition trimString :: "string \<Rightarrow> string" where
  "trimString s = rev (dropWhile isStrWhiteSpace (rev (dropWhile isStrWhiteSpace s)))"

definition digitValue :: "char \<Rightarrow> int option" where
  "digitValue c =
     (let n = (of_char c :: int)
      in if 48 \<le> n \<and> n \<le> 57 then Some (n - 48)
         else if 97 \<le> n \<and> n \<le> 102 then Some (n - 87)
         else if 65 \<le> n \<and> n \<le> 70 then Some (n - 55)
         else None)"

fun digitsValue :: "int \<Rightarrow> int \<Rightarrow> string \<Rightarrow> int option" where
  "digitsValue base acc [] = Some acc"
| "digitsValue base acc (c # cs) =
     (case digitValue c of
        None \<Rightarrow> None
      | Some d \<Rightarrow> if d < base then digitsValue base (acc * base + d) cs else None)"

definition numeral_of :: "int \<Rightarrow> string \<Rightarrow> int option" where
  "numeral_of base ds = (if ds = [] then None else digitsValue base 0 ds)"

text \<open>
  \<open>BigInt(s)\<close> on a string follows StringToBigInt: surrounding white space is
  dropped, the empty string is \<open>0n\<close>, a decimal literal may carry a sign, a literal
  with prefix \<open>0x\<close>, \<open>0o\<close> or \<open>0b\<close> may not, and anything else throws a
  SyntaxError.
\<close>

definition nonDecimal :: "int \<Rightarrow> string \<Rightarrow> js_error + int" where
  "nonDecimal base ds =
     (case numeral_of base ds of None \<Rightarrow> Inl SyntaxError | Some n \<Rightarrow> Inr n)"

fun stringToBigInt :: "string \<Rightarrow> js_error + int" where
  "stringToBigInt [] = Inr 0"
| "stringToBigInt (c # cs) =
     (if c = CHR ''0'' \<and> cs \<noteq> [] \<and> hd cs \<in> {CHR ''x'', CHR ''X''} then nonDecimal 16 (tl cs)
      else if c = CHR ''0'' \<and> cs \<noteq> [] \<and> hd cs \<in> {CHR ''o'', CHR ''O''} then nonDecimal 8 (tl cs)
      else if c = CHR ''0'' \<and> cs \<noteq> [] \<and> hd cs \<in> {CHR ''b'', CHR ''B''} then nonDecimal 2 (tl cs)
      else if c = CHR ''-'' then
        (case numeral_of 10 cs of None \<Rightarrow> Inl SyntaxError | Some n \<Rightarrow> Inr (- n))
      else if c = CHR ''+'' then
        (case numeral_of 10 cs of None \<Rightarrow> Inl SyntaxError | Some n \<Rightarrow> Inr n)
      else
        (case numeral_of 10 (c # cs) of None \<Rightarrow> Inl SyntaxError | Some n \<Rightarrow> Inr n))"

definition BigInt :: "string \<Rightarrow> js_error + int" where
  "BigInt s = stringToBigInt (trimString s)"

section \<open>Data model of the facilitator (exact/facilitator/scheme.ts)\<close>

datatype tx_status = Pending | Committed | Finalized | Failed

text \<open>
  \<open>ConcordiumTransactionInfo\<close>: the optional properties are options, \<open>None\<close> being
  \<open>undefined\<close>.
\<close>

record ConcordiumTransactionInfo =
  txHash :: string
  blockHash :: string
  status :: tx_status
  sender :: string
  recipient :: "string option"
  amount :: "string option"
  asset :: "string option"
  error :: "string option"

text \<open>
  The fields of \<open>PaymentRequirements\<close> and \<open>PaymentPayload\<close> (declared in
  @x402/core) that the scheme reads.  \<open>requirements.asset\<close> is defaulted by the code
  with \<open>|| ""\<close>, so it is an option here.
\<close>

record PaymentRequirements =
  scheme :: string
  network :: string
  r_amount :: string
  r_asset :: "string option"
  payTo :: string

record ExactConcordiumPayloadV2 =
  p_txHash :: string
  p_sender :: string
  p_blockHash :: "string option"

record PaymentPayload =
  accepted :: PaymentRequirements
  payload :: ExactConcordiumPayloadV2

record VerifyResponse =
  isValid :: bool
  invalidReason :: "string option"
  payer :: string

record SettleResponse =
  success :: bool
  s_network :: string
  transaction :: string
  errorReason :: "string option"
  s_payer :: string

text \<open>
  \<open>ConcordiumNodeClient\<close>: both methods are asynchronous calls to a node.  They
  are functions on the state \<open>'s\<close> of the world outside the facilitator; a rejected
  promise is \<open>Inl\<close>, \<open>null\<close> is \<open>Inr None\<close>.  Times are milliseconds.
\<close>

record 's ConcordiumNodeClient =
  getTransactionStatus :: "string \<Rightarrow> 's \<Rightarrow> (js_error + ConcordiumTransactionInfo option) \<times> 's"
  waitForFinalization :: "string \<Rightarrow> int \<Rightarrow> 's \<Rightarrow> (js_error + ConcordiumTransactionInfo option) \<times> 's"

record 's ExactConcordiumSchemeConfig =
  nodeClient :: "'s ConcordiumNodeClient"
  requireFinalization :: bool
  finalizationTimeoutMs :: int

text \<open>The constructor: \<open>requireFinalization ?? true\<close>, \<open>finalizationTimeoutMs ?? 60000\<close>.\<close>

definition newConfig ::
  "'s ConcordiumNodeClient \<Rightarrow> bool option \<Rightarrow> int option \<Rightarrow> 's ExactConcordiumSchemeConfig" where
  "newConfig nc rf tmo =
     \<lparr> nodeClient = nc,
       requireFinalization = (case rf of None \<Rightarrow> True | Some b \<Rightarrow> b),
       finalizationTimeoutMs = (case tmo of None \<Rightarrow> 60000 | Some t \<Rightarrow> t) \<rparr>"

text \<open>
  The calls a scheme makes on its node client are recorded, in order, beside the state
  of the world: this is what "calls" and "never calls" mean below.  Writing to the
  console is not modelled.
\<close>

datatype node_call = GetTransactionStatus string | WaitForFinalization string int

type_synonym 's io = "'s \<times> node_call list"

definition invalid :: "string \<Rightarrow> string \<Rightarrow> VerifyResponse" where
  "invalid reason who = \<lparr> isValid = False, invalidReason = Some reason, payer = who \<rparr>"

definition valid :: "string \<Rightarrow> VerifyResponse" where
  "valid who = \<lparr> isValid = True, invalidReason = None, payer = who \<rparr>"

section \<open>ExactConcordiumScheme (V2): verify and settle\<close>

text \<open>
  \<open>verify\<close> is one function in the source; here its body is cut into
  \<open>verify\<close> (scheme, network and lookup), \<open>verifyTransaction\<close> (state, finality,
  sender and recipient), \<open>verifyAmount\<close> and \<open>verifyAsset\<close>, each ending where the
  next begins, in the order of the source.  \<open>BigInt\<close> is applied outside any
  \<open>try\<close>, so its SyntaxError is the result of the call.
\<close>

definition verifyAsset :: "ConcordiumTransactionInfo \<Rightarrow> PaymentRequirements \<Rightarrow> string \<Rightarrow> VerifyResponse" where
  "verifyAsset txInfo requirements who =
     (case asset txInfo of
        None \<Rightarrow> valid who
      | Some a \<Rightarrow>
          (let expectedAsset = (case r_asset requirements of None \<Rightarrow> [] | Some e \<Rightarrow> if truthy e then e else []);
               actualAsset = (if truthy a then a else [])
           in if expectedAsset \<noteq> actualAsset then invalid ''asset_mismatch'' who else valid who))"

definition verifyAmount :: "ConcordiumTransactionInfo \<Rightarrow> PaymentRequirements \<Rightarrow> string \<Rightarrow> js_error + VerifyResponse" where
  "verifyAmount txInfo requirements who =
     (case amount txInfo of
        None \<Rightarrow> Inr (verifyAsset txInfo requirements who)
      | Some a \<Rightarrow>
          if truthy a then
            (case BigInt a of
               Inl e \<Rightarrow> Inl e
             | Inr paid \<Rightarrow>
                 (case BigInt (r_amount requirements) of
                    Inl e \<Rightarrow> Inl e
                  | Inr required \<Rightarrow>
                      if paid < required then Inr (invalid ''insufficient_amount'' who)
                      else Inr (verifyAsset txInfo requirements who)))
          else Inr (verifyAsset txInfo requirements who))"

definition verifyTransaction ::
  "bool \<Rightarrow> ConcordiumTransactionInfo \<Rightarrow> PaymentRequirements \<Rightarrow> string \<Rightarrow> js_error + VerifyResponse" where
  "verifyTransaction requireFinal txInfo requirements who =
     (if status txInfo = Failed then Inr (invalid ''transaction_failed'' who)
      else if status txInfo = Pending then Inr (invalid ''transaction_pending'' who)
      else if requireFinal \<and> status txInfo \<noteq> Finalized then Inr (invalid ''transaction_not_finalized'' who)
      else if truthy (sender txInfo) \<and> toLowerCase (sender txInfo) \<noteq> toLowerCase who
        then Inr (invalid ''sender_mismatch'' who)
      else if (case recipient txInfo of None \<Rightarrow> False
               | Some r \<Rightarrow> truthy r \<and> toLowerCase r \<noteq> toLowerCase (payTo requirements))
        then Inr (invalid ''recipient_mismatch'' who)
      else verifyAmount txInfo requirements who)"

definition verify ::
  "'s ExactConcordiumSchemeConfig \<Rightarrow> PaymentPayload \<Rightarrow> PaymentRequirements \<Rightarrow> 's io
     \<Rightarrow> (js_error + VerifyResponse) \<times> 's io" where
  "verify config pl requirements io =
     (let concordiumPayload = payload pl; who = p_sender concordiumPayload
      in if scheme (accepted pl) \<noteq> ''exact'' \<or> scheme requirements \<noteq> ''exact''
           then (Inr (invalid ''unsupported_scheme'' who), io)
         else if network (accepted pl) \<noteq> network requirements
           then (Inr (invalid ''network_mismatch'' who), io)
         else
           (case getTransactionStatus (nodeClient config) (p_txHash concordiumPayload) (fst io) of
              (looked, w) \<Rightarrow>
                (let io' = (w, snd io @ [GetTransactionStatus (p_txHash concordiumPayload)])
                 in case looked of
                      Inl e \<Rightarrow> (Inr (invalid ''transaction_lookup_failed'' who), io')
                    | Inr None \<Rightarrow> (Inr (invalid ''transaction_not_found'' who), io')
                    | Inr (Some txInfo) \<Rightarrow>
                        (verifyTransaction (requireFinalization config) txInfo requirements who, io'))))"

definition settleFailure :: "PaymentPayload \<Rightarrow> string \<Rightarrow> SettleResponse" where
  "settleFailure pl reason =
     \<lparr> success = False, s_network = network (accepted pl), transaction = p_txHash (payload pl),
       errorReason = Some reason, s_payer = p_sender (payload pl) \<rparr>"

definition settleSuccess :: "PaymentPayload \<Rightarrow> SettleResponse" where
  "settleSuccess pl =
     \<lparr> success = True, s_network = network (accepted pl), transaction = p_txHash (payload pl),
       errorReason = None, s_payer = p_sender (payload pl) \<rparr>"

definition settle ::
  "'s ExactConcordiumSchemeConfig \<Rightarrow> PaymentPayload \<Rightarrow> PaymentRequirements \<Rightarrow> 's io
     \<Rightarrow> (js_error + SettleResponse) \<times> 's io" where
  "settle config pl requirements io =
     (case verify config pl requirements io of
        (Inl e, io1) \<Rightarrow> (Inl e, io1)
      | (Inr verifyResult, io1) \<Rightarrow>
          if \<not> isValid verifyResult then
            (Inr (settleFailure pl
                    (case invalidReason verifyResult of None \<Rightarrow> ''invalid_payment'' | Some r \<Rightarrow> r)), io1)
          else if requireFinalization config then
            (case waitForFinalization (nodeClient config) (p_txHash (payload pl))
                    (finalizationTimeoutMs config) (fst io1) of
               (waited, w) \<Rightarrow>
                 (let io2 = (w, snd io1 @ [WaitForFinalization (p_txHash (payload pl)) (finalizationTimeoutMs config)])
                  in case waited of
                       Inl e \<Rightarrow> (Inr (settleFailure pl ''finalization_failed''), io2)
                     | Inr None \<Rightarrow> (Inr (settleFailure pl ''finalization_timeout''), io2)
                     | Inr (Some finalizedTx) \<Rightarrow>
                         if status finalizedTx \<noteq> Finalized
                         then (Inr (settleFailure pl ''finalization_timeout''), io2)
                         else (Inr (settleSuccess pl), io2)))
          else (Inr (settleSuccess pl), io1))"

section \<open>ExactConcordiumSchemeV1 (exact/v1/facilitator/scheme.ts)\<close>

text \<open>
  The legacy scheme reads scheme and network from the top level of the payload, and the
  required amount from \<open>maxAmountRequired\<close>.  \<open>ExactConcordiumPayloadV1\<close> has the
  fields of \<open>ExactConcordiumPayloadV2\<close>, whose record is used for both.
\<close>

record PaymentRequirementsV1 =
  v1_scheme :: string
  v1_network :: string
  maxAmountRequired :: string
  v1_asset :: "string option"
  v1_payTo :: string

record PaymentPayloadV1 =
  pv1_scheme :: string
  pv1_network :: string
  pv1_payload :: ExactConcordiumPayloadV2

definition verifyAssetV1 :: "ConcordiumTransactionInfo \<Rightarrow> PaymentRequirementsV1 \<Rightarrow> string \<Rightarrow> VerifyResponse" where
  "verifyAssetV1 txInfo requirementsV1 who =
     (let expectedAsset = (case v1_asset requirementsV1 of None \<Rightarrow> [] | Some e \<Rightarrow> if truthy e then e else []);
          actualAsset = (case asset txInfo of None \<Rightarrow> [] | Some a \<Rightarrow> if truthy a then a else [])
      in if expectedAsset \<noteq> actualAsset then invalid ''asset_mismatch'' who else valid who)"

definition verifyAmountV1 :: "ConcordiumTransactionInfo \<Rightarrow> PaymentRequirementsV1 \<Rightarrow> string \<Rightarrow> js_error + VerifyResponse" where
  "verifyAmountV1 txInfo requirementsV1 who =
     (case amount txInfo of
        None \<Rightarrow> Inr (invalid ''insufficient_amount'' who)
      | Some a \<Rightarrow>
          if \<not> truthy a then Inr (invalid ''insufficient_amount'' who)
          else
            (case BigInt a of
               Inl e \<Rightarrow> Inl e
             | Inr paid \<Rightarrow>
                 (case BigInt (maxAmountRequired requirementsV1) of
                    Inl e \<Rightarrow> Inl e
                  | Inr required \<Rightarrow>
                      if paid < required then Inr (invalid ''insufficient_amount'' who)
                      else Inr (verifyAssetV1 txInfo requirementsV1 who))))"

definition verifyTransactionV1 ::
  "bool \<Rightarrow> ConcordiumTransactionInfo \<Rightarrow> PaymentRequirementsV1 \<Rightarrow> string \<Rightarrow> js_error + VerifyResponse" where
  "verifyTransactionV1 requireFinal txInfo requirementsV1 who =
     (if status txInfo = Failed then Inr (invalid ''transaction_failed'' who)
      else if status txInfo = Pending then Inr (invalid ''transaction_pending'' who)
      else if requireFinal \<and> status txInfo \<noteq> Finalized then Inr (invalid ''transaction_not_finalized'' who)
      else if truthy (sender txInfo) \<and> toLowerCase (sender txInfo) \<noteq> toLowerCase who
        then Inr (invalid ''sender_mismatch'' who)
      else if (case recipient txInfo of None \<Rightarrow> False
               | Some r \<Rightarrow> truthy r \<and> toLowerCase r \<noteq> toLowerCase (v1_payTo requirementsV1))
        then Inr (invalid ''recipient_mismatch'' who)
      else verifyAmountV1 txInfo requirementsV1 who)"

definition verifyV1 ::
  "'s ExactConcordiumSchemeConfig \<Rightarrow> PaymentPayloadV1 \<Rightarrow> PaymentRequirementsV1 \<Rightarrow> 's io
     \<Rightarrow> (js_error + VerifyResponse) \<times> 's io" where
  "verifyV1 config payloadV1 requirementsV1 io =
     (let concordiumPayload = pv1_payload payloadV1; who = p_sender concordiumPayload
      in if pv1_scheme payloadV1 \<noteq> ''exact'' \<or> v1_scheme requirementsV1 \<noteq> ''exact''
           then (Inr (invalid ''unsupported_scheme'' who), io)
         else if pv1_network payloadV1 \<noteq> v1_network requirementsV1
           then (Inr (invalid ''network_mismatch'' who), io)
         else
           (case getTransactionStatus (nodeClient config) (p_txHash concordiumPayload) (fst io) of
              (looked, w) \<Rightarrow>
                (let io' = (w, snd io @ [GetTransactionStatus (p_txHash concordiumPayload)])
                 in case looked of
                      Inl e \<Rightarrow> (Inr (invalid ''transaction_lookup_failed'' who), io')
                    | Inr None \<Rightarrow> (Inr (invalid ''transaction_not_found'' who), io')
                    | Inr (Some txInfo) \<Rightarrow>
                        (verifyTransactionV1 (requireFinalization config) txInfo requirementsV1 who, io'))))"

definition settleFailureV1 :: "PaymentPayloadV1 \<Rightarrow> string \<Rightarrow> SettleResponse" where
  "settleFailureV1 payloadV1 reason =
     \<lparr> success = False, s_network = pv1_network payloadV1, transaction = p_txHash (pv1_payload payloadV1),
       errorReason = Some reason, s_payer = p_sender (pv1_payload payloadV1) \<rparr>"

definition settleSuccessV1 :: "PaymentPayloadV1 \<Rightarrow> SettleResponse" where
  "settleSuccessV1 payloadV1 =
     \<lparr> success = True, s_network = pv1_network payloadV1, transaction = p_txHash (pv1_payload payloadV1),
       errorReason = None, s_payer = p_sender (pv1_payload payloadV1) \<rparr>"

definition settleV1 ::
  "'s ExactConcordiumSchemeConfig \<Rightarrow> PaymentPayloadV1 \<Rightarrow> PaymentRequirementsV1 \<Rightarrow> 's io
     \<Rightarrow> (js_error + SettleResponse) \<times> 's io" where
  "settleV1 config payloadV1 requirementsV1 io =
     (case verifyV1 config payloadV1 requirementsV1 io of
        (Inl e, io1) \<Rightarrow> (Inl e, io1)
      | (Inr verifyResult, io1) \<Rightarrow>
          if \<not> isValid verifyResult then
            (Inr (settleFailureV1 payloadV1
                    (case invalidReason verifyResult of None \<Rightarrow> ''invalid_payment'' | Some r \<Rightarrow> r)), io1)
          else if requireFinalization config then
            (case waitForFinalization (nodeClient config) (p_txHash (pv1_payload payloadV1))
                    (finalizationTimeoutMs config) (fst io1) of
               (waited, w) \<Rightarrow>
                 (let io2 = (w, snd io1 @ [WaitForFinalization (p_txHash (pv1_payload payloadV1))
                                            (finalizationTimeoutMs config)])
                  in case waited of
                       Inl e \<Rightarrow> (Inr (settleFailureV1 payloadV1 ''finalization_failed''), io2)
                     | Inr None \<Rightarrow> (Inr (settleFailureV1 payloadV1 ''finalization_timeout''), io2)
                     | Inr (Some finalizedTx) \<Rightarrow>
                         if status finalizedTx \<noteq> Finalized
                         then (Inr (settleFailureV1 payloadV1 ''finalization_timeout''), io2)
                         else (Inr (settleSuccessV1 payloadV1), io2)))
          else (Inr (settleSuccessV1 payloadV1), io1))"

section \<open>The gRPC node client (utils/grpc-node.client.ts)\<close>

datatype sdk_status = Received | SdkCommitted | SdkFinalized

datatype result_outcome = Success | Reject

record Transfer =
  transfer_to :: string
  transfer_amount :: string

record ContractUpdate =
  address :: string
  receiveName :: string
  events :: "string list option"

record TransactionSummary =
  summary_type :: string
  summary_sender :: string
  result_outcome :: result_outcome
  rejectReason :: "string option"
  transfer :: "Transfer option"
  contractUpdate :: "ContractUpdate option"

record TransactionOutcome =
  outcome_blockHash :: "string option"
  summary :: "TransactionSummary option"

record BlockItemStatus =
  item_status :: sdk_status
  outcome :: "TransactionOutcome option"

record FinalizedTransaction =
  finalized_blockHash :: string
  finalized_summary :: TransactionSummary

text \<open>
  \<open>ConcordiumGRPCClientLike\<close>.  The world outside is the clock (\<open>Date.now()\<close>, in
  milliseconds): what the node answers depends on the time it is asked, a call takes
  \<open>callDuration\<close> milliseconds, and the optional subscription method returns with the
  time at which it completed.
\<close>

record ConcordiumGRPCClientLike =
  getBlockItemStatus :: "string \<Rightarrow> int \<Rightarrow> js_error + BlockItemStatus option"
  callDuration :: nat
  waitForTransactionFinalization ::
    "(string \<Rightarrow> int \<Rightarrow> int \<Rightarrow> (js_error + FinalizedTransaction option) \<times> int) option"

definition rejected :: "TransactionOutcome option \<Rightarrow> bool" where
  "rejected oc =
     (case oc of
        None \<Rightarrow> False
      | Some out \<Rightarrow> (case summary out of None \<Rightarrow> False | Some sm \<Rightarrow> result_outcome sm = Reject))"

definition mapStatusEnum :: "sdk_status \<Rightarrow> TransactionOutcome option \<Rightarrow> tx_status" where
  "mapStatusEnum sdkStatus oc =
     (if rejected oc then Failed
      else case sdkStatus of
             Received \<Rightarrow> Pending
           | SdkCommitted \<Rightarrow> Committed
           | SdkFinalized \<Rightarrow> Finalized)"

definition mapTransactionStatus :: "string \<Rightarrow> BlockItemStatus \<Rightarrow> ConcordiumTransactionInfo" where
  "mapTransactionStatus h st =
     (let info = \<lparr> txHash = h,
                   blockHash = (case outcome st of
                                  None \<Rightarrow> []
                                | Some out \<Rightarrow> (case outcome_blockHash out of None \<Rightarrow> [] | Some b \<Rightarrow> b)),
                   status = mapStatusEnum (item_status st) (outcome st),
                   sender = [], recipient = None, amount = None, asset = None, error = None \<rparr>
      in case outcome st of
           None \<Rightarrow> info
         | Some out \<Rightarrow>
             (case summary out of
                None \<Rightarrow> info
              | Some sm \<Rightarrow>
                  (let info1 = info\<lparr>sender := summary_sender sm\<rparr>;
                       info2 = (if result_outcome sm = Reject
                                then info1\<lparr>status := Failed, error := rejectReason sm\<rparr> else info1);
                       info3 = (case transfer sm of
                                  None \<Rightarrow> info2
                                | Some t \<Rightarrow> info2\<lparr>recipient := Some (transfer_to t),
                                                  amount := Some (transfer_amount t),
                                                  asset := Some []\<rparr>)
                   in case contractUpdate sm of
                        None \<Rightarrow> info3
                      | Some cu \<Rightarrow> info3\<lparr>asset := Some (address cu)\<rparr>)))"

text \<open>
  \<open>createConcordiumNodeClient(grpcClient).getTransactionStatus\<close>: the whole body is
  inside \<open>try\<close>, and the \<open>catch\<close> returns \<open>null\<close>.
\<close>

definition node_getTransactionStatus ::
  "ConcordiumGRPCClientLike \<Rightarrow> string \<Rightarrow> int \<Rightarrow> ConcordiumTransactionInfo option \<times> int" where
  "node_getTransactionStatus g h t =
     (case getBlockItemStatus g h t of
        Inl e \<Rightarrow> (None, t + int (callDuration g))
      | Inr None \<Rightarrow> (None, t + int (callDuration g))
      | Inr (Some st) \<Rightarrow> (Some (mapTransactionStatus h st), t + int (callDuration g)))"

text \<open>
  The loop of \<open>pollForFinalization\<close>; \<open>t\<close> is the clock when the loop condition is
  evaluated, and \<open>setTimeout\<close> resumes after the poll interval of 2000 ms.
\<close>

function pollLoop ::
  "ConcordiumGRPCClientLike \<Rightarrow> string \<Rightarrow> int \<Rightarrow> int \<Rightarrow> int \<Rightarrow> ConcordiumTransactionInfo option \<times> int" where
  "pollLoop g h startTime timeoutMs t =
     (if t - startTime < timeoutMs then
        (case fst (node_getTransactionStatus g h t) of
           None \<Rightarrow> (None, snd (node_getTransactionStatus g h t))
         | Some st \<Rightarrow>
             if status st = Finalized then (Some st, snd (node_getTransactionStatus g h t))
             else if status st = Failed then (Some st, snd (node_getTransactionStatus g h t))
             else pollLoop g h startTime timeoutMs (snd (node_getTransactionStatus g h t) + 2000))
      else node_getTransactionStatus g h t)"
  by pat_completeness auto
termination
  by (relation "measure (\<lambda>(g, h, startTime, timeoutMs, t). nat (startTime + timeoutMs - t))")
     (auto simp: node_getTransactionStatus_def split: sum.split option.split)

declare pollLoop.simps [simp del]

definition pollForFinalization ::
  "ConcordiumGRPCClientLike \<Rightarrow> string \<Rightarrow> int \<Rightarrow> int \<Rightarrow> ConcordiumTransactionInfo option \<times> int" where
  "pollForFinalization g h timeoutMs t = pollLoop g h t timeoutMs t"

definition finalizedInfo :: "string \<Rightarrow> FinalizedTransaction \<Rightarrow> ConcordiumTransactionInfo" where
  "finalizedInfo h res =
     \<lparr> txHash = h,
       blockHash = finalized_blockHash res,
       status = Finalized,
       sender = summary_sender (finalized_summary res),
       recipient = map_option transfer_to (transfer (finalized_summary res)),
       amount = map_option transfer_amount (transfer (finalized_summary res)),
       asset = (case transfer (finalized_summary res) of None \<Rightarrow> None | Some t \<Rightarrow> Some []),
       error = None \<rparr>"

text \<open>
  \<open>waitForFinalization(txHash, timeoutMs = 60000)\<close>: the subscription of the client if
  it has one, polling if it has none or if the subscription throws.
\<close>

definition node_waitForFinalization ::
  "ConcordiumGRPCClientLike \<Rightarrow> string \<Rightarrow> int option \<Rightarrow> int \<Rightarrow> ConcordiumTransactionInfo option \<times> int" where
  "node_waitForFinalization g h tmo t =
     (let timeoutMs = (case tmo of None \<Rightarrow> 60000 | Some ms \<Rightarrow> ms)
      in case waitForTransactionFinalization g of
           None \<Rightarrow> pollForFinalization g h timeoutMs t
         | Some subscribe \<Rightarrow>
             (case subscribe h timeoutMs t of
                (Inl e, t') \<Rightarrow> pollForFinalization g h timeoutMs t'
              | (Inr None, t') \<Rightarrow> (None, t')
              | (Inr (Some res), t') \<Rightarrow> (Some (finalizedInfo h res), t')))"

definition createConcordiumNodeClient :: "ConcordiumGRPCClientLike \<Rightarrow> int ConcordiumNodeClient" where
  "createConcordiumNodeClient g =
     \<lparr> getTransactionStatus =
         (\<lambda>h t. case node_getTransactionStatus g h t of (r, t') \<Rightarrow> (Inr r, t')),
       waitForFinalization =
         (\<lambda>h ms t. case node_waitForFinalization g h (Some ms) t of (r, t') \<Rightarrow> (Inr r, t')) \<rparr>"

section \<open>ConcordiumClient (client/concordium.client.ts)\<close>

text \<open>
  What \<open>getTransactionStatus\<close> reads of the block item status of the SDK: the raw
  status and, through optional chaining, the sender address, the transfer's recipient
  address and its amount in microCCD.  Whether the summary carries a rejection is part of
  the SDK's answer; the method does not read it.
\<close>

record SdkBlockItemStatus =
  sdk_status :: sdk_status
  sdk_rejected :: bool
  sdk_senderAddress :: "string option"
  sdk_transferTo :: "string option"
  sdk_microCcdAmount :: "int option"

text \<open>
  The SDK client: \<open>TransactionHash.fromHexString\<close> followed by
  \<open>getBlockItemStatus\<close>, either of which may throw.
\<close>

record SdkNodeClient =
  sdk_getBlockItemStatus :: "string \<Rightarrow> int \<Rightarrow> js_error + SdkBlockItemStatus option"
  sdk_callDuration :: nat

record TransactionInfo =
  ti_txHash :: string
  ti_status :: tx_status
  ti_sender :: string
  ti_recipient :: "string option"
  ti_amount :: "string option"
  ti_contractIndex :: "int option"
  ti_contractSubindex :: "int option"
  ti_error :: "string option"

text \<open>\<open>bigint.toString()\<close>: decimal digits, with a sign for a negative value.\<close>

function decimalDigits :: "int \<Rightarrow> string" where
  "decimalDigits n =
     (if n < 10 then [char_of (48 + n)] else decimalDigits (n div 10) @ [char_of (48 + n mod 10)])"
  by pat_completeness auto
termination
  by (relation "measure nat") auto

declare decimalDigits.simps [simp del]

definition bigintToString :: "int \<Rightarrow> string" where
  "bigintToString n = (if n < 0 then CHR ''-'' # decimalDigits (- n) else decimalDigits n)"

definition client_getTransactionStatus ::
  "SdkNodeClient \<Rightarrow> string \<Rightarrow> int \<Rightarrow> (js_error + TransactionInfo) \<times> int" where
  "client_getTransactionStatus c h t =
     (case sdk_getBlockItemStatus c h t of
        Inl e \<Rightarrow> (Inl e, t + int (sdk_callDuration c))
      | Inr None \<Rightarrow>
          (Inr \<lparr> ti_txHash = h, ti_status = Pending, ti_sender = [], ti_recipient = Some [],
                 ti_amount = Some [], ti_contractIndex = None, ti_contractSubindex = None,
                 ti_error = None \<rparr>,
           t + int (sdk_callDuration c))
      | Inr (Some blockStatus) \<Rightarrow>
          (let sender' = (case sdk_senderAddress blockStatus of None \<Rightarrow> [] | Some a \<Rightarrow> a);
               recipient' = (case sdk_transferTo blockStatus of None \<Rightarrow> [] | Some a \<Rightarrow> a);
               amount' = (case sdk_microCcdAmount blockStatus of None \<Rightarrow> [] | Some n \<Rightarrow> bigintToString n);
               status' = (case sdk_status blockStatus of
                            SdkFinalized \<Rightarrow> Finalized
                          | SdkCommitted \<Rightarrow> Committed
                          | Received \<Rightarrow> Pending)
           in (Inr \<lparr> ti_txHash = h, ti_status = status', ti_sender = sender',
                      ti_recipient = Some recipient', ti_amount = Some amount',
                      ti_contractIndex = None, ti_contractSubindex = None, ti_error = None \<rparr>,
               t + int (sdk_callDuration c))))"

text \<open>
  \<open>ConcordiumClient.waitForFinalization\<close>.  \<open>getTransactionStatus\<close> always returns an
  object, so the branch \<open>if (!info) return null\<close> is never taken; a throw of the lookup
  leaves the method.
\<close>

function client_waitLoop ::
  "SdkNodeClient \<Rightarrow> string \<Rightarrow> int \<Rightarrow> int \<Rightarrow> int \<Rightarrow> (js_error + TransactionInfo option) \<times> int" where
  "client_waitLoop c h start timeoutMs t =
     (if t - start < timeoutMs then
        (case fst (client_getTransactionStatus c h t) of
           Inl e \<Rightarrow> (Inl e, snd (client_getTransactionStatus c h t))
         | Inr info \<Rightarrow>
             if ti_status info = Finalized \<or> ti_status info = Failed
             then (Inr (Some info), snd (client_getTransactionStatus c h t))
             else client_waitLoop c h start timeoutMs (snd (client_getTransactionStatus c h t) + 2000))
      else
        (case fst (client_getTransactionStatus c h t) of
           Inl e \<Rightarrow> (Inl e, snd (client_getTransactionStatus c h t))
         | Inr info \<Rightarrow> (Inr (Some info), snd (client_getTransactionStatus c h t))))"
  by pat_completeness auto
termination
  by (relation "measure (\<lambda>(c, h, start, timeoutMs, t). nat (start + timeoutMs - t))")
     (auto simp: client_getTransactionStatus_def Let_def split: sum.split option.split)

declare client_waitLoop.simps [simp del]

definition client_waitForFinalization ::
  "SdkNodeClient \<Rightarrow> string \<Rightarrow> int option \<Rightarrow> int \<Rightarrow> (js_error + TransactionInfo option) \<times> int" where
  "client_waitForFinalization c h tmo t =
     client_waitLoop c h t (case tmo of None \<Rightarrow> 60000 | Some ms \<Rightarrow> ms) t"

text \<open>
  A \<open>ConcordiumClient\<close> used as the node client of a scheme.  The scheme reads
  \<open>status\<close>, \<open>sender\<close>, \<open>recipient\<close>, \<open>amount\<close> and \<open>asset\<close> of what the client
  returns; a \<open>TransactionInfo\<close> has no \<open>asset\<close> and no \<open>blockHash\<close> property.
\<close>

definition asConcordiumTransactionInfo :: "TransactionInfo \<Rightarrow> ConcordiumTransactionInfo" where
  "asConcordiumTransactionInfo info =
     \<lparr> txHash = ti_txHash info, blockHash = [], status = ti_status info, sender = ti_sender info,
       recipient = ti_recipient info, amount = ti_amount info, asset = None, error = ti_error info \<rparr>"

definition concordiumClientAsNodeClient :: "SdkNodeClient \<Rightarrow> int ConcordiumNodeClient" where
  "concordiumClientAsNodeClient c =
     \<lparr> getTransactionStatus =
         (\<lambda>h t. case client_getTransactionStatus c h t of
                   (Inl e, t') \<Rightarrow> (Inl e, t')
                 | (Inr info, t') \<Rightarrow> (Inr (Some (asConcordiumTransactionInfo info)), t')),
       waitForFinalization =
         (\<lambda>h ms t. case client_waitForFinalization c h (Some ms) t of
                      (Inl e, t') \<Rightarrow> (Inl e, t')
                    | (Inr r, t') \<Rightarrow> (Inr (map_option asConcordiumTransactionInfo r), t')) \<rparr>"

section \<open>The ordered checks of the specification\<close>

text \<open>
  The specification describes \<open>verify\<close> as a fixed sequence of checks, cut at the first
  one that does not pass.  A check passes, fails with a reason, or (the amount check,
  through \<open>BigInt\<close>) throws.
\<close>

datatype check_result = Pass | Fail string | Throws js_error

fun firstFailure :: "check_result list \<Rightarrow> string \<Rightarrow> js_error + VerifyResponse" where
  "firstFailure [] who = Inr (valid who)"
| "firstFailure (Pass # cs) who = firstFailure cs who"
| "firstFailure (Fail reason # cs) who = Inr (invalid reason who)"
| "firstFailure (Throws e # cs) who = Inl e"

definition checkScheme :: "string \<Rightarrow> string \<Rightarrow> check_result" where
  "checkScheme claimed required =
     (if claimed = ''exact'' \<and> required = ''exact'' then Pass else Fail ''unsupported_scheme'')"

definition checkNetwork :: "string \<Rightarrow> string \<Rightarrow> check_result" where
  "checkNetwork claimed required = (if claimed = required then Pass else Fail ''network_mismatch'')"

definition checkExists :: "js_error + ConcordiumTransactionInfo option \<Rightarrow> check_result" where
  "checkExists looked =
     (case looked of
        Inl e \<Rightarrow> Fail ''transaction_lookup_failed''
      | Inr None \<Rightarrow> Fail ''transaction_not_found''
      | Inr (Some txInfo) \<Rightarrow> Pass)"

definition checkNotFailed :: "ConcordiumTransactionInfo \<Rightarrow> check_result" where
  "checkNotFailed txInfo = (if status txInfo = Failed then Fail ''transaction_failed'' else Pass)"

definition checkNotPending :: "ConcordiumTransactionInfo \<Rightarrow> check_result" where
  "checkNotPending txInfo = (if status txInfo = Pending then Fail ''transaction_pending'' else Pass)"

definition checkFinalized :: "bool \<Rightarrow> ConcordiumTransactionInfo \<Rightarrow> check_result" where
  "checkFinalized requireFinal txInfo =
     (if requireFinal \<and> status txInfo \<noteq> Finalized then Fail ''transaction_not_finalized'' else Pass)"

definition checkSender :: "ConcordiumTransactionInfo \<Rightarrow> string \<Rightarrow> check_result" where
  "checkSender txInfo who =
     (if sender txInfo = [] then Pass
      else if toLowerCase (sender txInfo) = toLowerCase who then Pass
      else Fail ''sender_mismatch'')"

definition checkRecipient :: "ConcordiumTransactionInfo \<Rightarrow> string \<Rightarrow> check_result" where
  "checkRecipient txInfo required =
     (case recipient txInfo of
        None \<Rightarrow> Pass
      | Some r \<Rightarrow>
          if r = [] then Pass
          else if toLowerCase r = toLowerCase required then Pass
          else Fail ''recipient_mismatch'')"

definition compareAmounts :: "string \<Rightarrow> string \<Rightarrow> check_result" where
  "compareAmounts paid required =
     (case BigInt paid of
        Inl e \<Rightarrow> Throws e
      | Inr p \<Rightarrow>
          (case BigInt required of
             Inl e \<Rightarrow> Throws e
           | Inr q \<Rightarrow> if q \<le> p then Pass else Fail ''insufficient_amount''))"

text \<open>In V2 an absent or empty amount passes; in V1 it fails.\<close>

definition checkAmount :: "ConcordiumTransactionInfo \<Rightarrow> string \<Rightarrow> check_result" where
  "checkAmount txInfo required =
     (case amount txInfo of
        None \<Rightarrow> Pass
      | Some a \<Rightarrow> if a = [] then Pass else compareAmounts a required)"

definition checkAmountV1 :: "ConcordiumTransactionInfo \<Rightarrow> string \<Rightarrow> check_result" where
  "checkAmountV1 txInfo required =
     (case amount txInfo of
        None \<Rightarrow> Fail ''insufficient_amount''
      | Some a \<Rightarrow> if a = [] then Fail ''insufficient_amount'' else compareAmounts a required)"

text \<open>
  An absent asset and the empty string both denote the native asset.  In V2 the check is
  made only when the snapshot has an asset; in V1 it is always made.
\<close>

definition nativeOr :: "string option \<Rightarrow> string" where
  "nativeOr a = (case a of None \<Rightarrow> [] | Some s \<Rightarrow> s)"

definition checkAsset :: "ConcordiumTransactionInfo \<Rightarrow> string option \<Rightarrow> check_result" where
  "checkAsset txInfo required =
     (case asset txInfo of
        None \<Rightarrow> Pass
      | Some a \<Rightarrow> if nativeOr required = a then Pass else Fail ''asset_mismatch'')"

definition checkAssetV1 :: "ConcordiumTransactionInfo \<Rightarrow> string option \<Rightarrow> check_result" where
  "checkAssetV1 txInfo required =
     (if nativeOr required = nativeOr (asset txInfo) then Pass else Fail ''asset_mismatch'')"

definition orderedChecks ::
  "bool \<Rightarrow> PaymentPayload \<Rightarrow> PaymentRequirements \<Rightarrow> js_error + ConcordiumTransactionInfo option
     \<Rightarrow> check_result list" where
  "orderedChecks requireFinal pl requirements looked =
     [checkScheme (scheme (accepted pl)) (scheme requirements),
      checkNetwork (network (accepted pl)) (network requirements),
      checkExists looked]
     @ (case looked of
          Inr (Some txInfo) \<Rightarrow>
            [checkNotFailed txInfo,
             checkNotPending txInfo,
             checkFinalized requireFinal txInfo,
             checkSender txInfo (p_sender (payload pl)),
             checkRecipient txInfo (payTo requirements),
             checkAmount txInfo (r_amount requirements),
             checkAsset txInfo (r_asset requirements)]
        | _ \<Rightarrow> [])"

definition orderedChecksV1 ::
  "bool \<Rightarrow> PaymentPayloadV1 \<Rightarrow> PaymentRequirementsV1 \<Rightarrow> js_error + ConcordiumTransactionInfo option
     \<Rightarrow> check_result list" where
  "orderedChecksV1 requireFinal payloadV1 requirementsV1 looked =
     [checkScheme (pv1_scheme payloadV1) (v1_scheme requirementsV1),
      checkNetwork (pv1_network payloadV1) (v1_network requirementsV1),
      checkExists looked]
     @ (case looked of
          Inr (Some txInfo) \<Rightarrow>
            [checkNotFailed txInfo,
             checkNotPending txInfo,
             checkFinalized requireFinal txInfo,
             checkSender txInfo (p_sender (pv1_payload payloadV1)),
             checkRecipient txInfo (v1_payTo requirementsV1),
             checkAmountV1 txInfo (maxAmountRequired requirementsV1),
             checkAssetV1 txInfo (v1_asset requirementsV1)]
        | _ \<Rightarrow> [])"

text \<open>The snapshot \<open>verify\<close> obtains: the answer of the node client in the current world.\<close>

definition lookedUp :: "'s ExactConcordiumSchemeConfig \<Rightarrow> string \<Rightarrow> 's io \<Rightarrow> js_error + ConcordiumTransactionInfo option" where
  "lookedUp config h io = fst (getTransactionStatus (nodeClient config) h (fst io))"

section \<open>Concrete inputs\<close>

text \<open>
  The fixtures of the unit tests: a node client that answers every call with a fixed
  result, the valid payload and requirements, and the finalized transaction matching them.
\<close>

definition fixedNodeClient ::
  "(js_error + ConcordiumTransactionInfo option) \<Rightarrow> (js_error + ConcordiumTransactionInfo option)
     \<Rightarrow> unit ConcordiumNodeClient" where
  "fixedNodeClient looked waited =
     \<lparr> getTransactionStatus = (\<lambda>h w. (looked, w)), waitForFinalization = (\<lambda>h ms w. (waited, w)) \<rparr>"

definition senderAddress :: string where
  "senderAddress = ''3kBx2h5Y2veb4hZvAE2c1Zr6DYJwWbPr9xQJJBPWyFnXHF9UuN''"

definition recipientAddress :: string where
  "recipientAddress = ''4FmiTW2L4RvCsSVTjFAavYvrgnPLGNj43eiwPYmbhNqtAcMbWW''"

definition testnet :: string where
  "testnet = ''ccd:4221332d34e1694168c2a0c0b3fd0f27''"

definition validTxInfo :: ConcordiumTransactionInfo where
  "validTxInfo =
     \<lparr> txHash = ''abc123'', blockHash = ''block456'', status = Finalized, sender = senderAddress,
       recipient = Some recipientAddress, amount = Some ''1000000'', asset = Some [], error = None \<rparr>"

definition validRequirements :: PaymentRequirements where
  "validRequirements =
     \<lparr> scheme = ''exact'', network = testnet, r_amount = ''1000000'', r_asset = Some [],
       payTo = recipientAddress \<rparr>"

definition validPayload :: PaymentPayload where
  "validPayload =
     \<lparr> accepted = validRequirements,
       payload = \<lparr> p_txHash = ''abc123'', p_sender = senderAddress, p_blockHash = None \<rparr> \<rparr>"

definition validRequirementsV1 :: PaymentRequirementsV1 where
  "validRequirementsV1 =
     \<lparr> v1_scheme = ''exact'', v1_network = ''concordium-testnet'', maxAmountRequired = ''1000000'',
       v1_asset = Some [], v1_payTo = recipientAddress \<rparr>"

definition validPayloadV1 :: PaymentPayloadV1 where
  "validPayloadV1 =
     \<lparr> pv1_scheme = ''exact'', pv1_network = ''concordium-testnet'',
       pv1_payload = \<lparr> p_txHash = ''abc123'', p_sender = senderAddress, p_blockHash = None \<rparr> \<rparr>"

definition testConfig ::
  "bool \<Rightarrow> (js_error + ConcordiumTransactionInfo option) \<Rightarrow> (js_error + ConcordiumTransactionInfo option)
     \<Rightarrow> unit ExactConcordiumSchemeConfig" where
  "testConfig requireFinal looked waited =
     newConfig (fixedNodeClient looked waited) (Some requireFinal) None"

text \<open>A transaction hash as the SDK accepts it: 64 hexadecimal digits.\<close>

definition transactionHash :: string where
  "transactionHash = ''4a3f0c9b7e2d15868f0a1b2c3d4e5f60718293a4b5c6d7e8f90123456789abcd''"

text \<open>
  A call of \<open>verify\<close> reaches the amount check when the scheme, network, existence,
  state, finality, sender and recipient checks have all passed on the transaction
  \<open>txInfo\<close> that the lookup returned; it reaches the asset check when the amount check
  has passed as well.
\<close>

definition reachesAmountCheck ::
  "'s ExactConcordiumSchemeConfig \<Rightarrow> PaymentPayload \<Rightarrow> PaymentRequirements \<Rightarrow> 's io
     \<Rightarrow> ConcordiumTransactionInfo \<Rightarrow> bool" where
  "reachesAmountCheck config pl requirements io txInfo =
     (scheme (accepted pl) = ''exact'' \<and> scheme requirements = ''exact''
      \<and> network (accepted pl) = network requirements
      \<and> lookedUp config (p_txHash (payload pl)) io = Inr (Some txInfo)
      \<and> status txInfo \<noteq> Failed \<and> status txInfo \<noteq> Pending
      \<and> (if requireFinalization config then status txInfo = Finalized else True)
      \<and> checkSender txInfo (p_sender (payload pl)) = Pass
      \<and> checkRecipient txInfo (payTo requirements) = Pass)"

definition reachesAssetCheck ::
  "'s ExactConcordiumSchemeConfig \<Rightarrow> PaymentPayload \<Rightarrow> PaymentRequirements \<Rightarrow> 's io
     \<Rightarrow> ConcordiumTransactionInfo \<Rightarrow> bool" where
  "reachesAssetCheck config pl requirements io txInfo =
     (reachesAmountCheck config pl requirements io txInfo
      \<and> checkAmount txInfo (r_amount requirements) = Pass)"

definition reachesAmountCheckV1 ::
  "'s ExactConcordiumSchemeConfig \<Rightarrow> PaymentPayloadV1 \<Rightarrow> PaymentRequirementsV1 \<Rightarrow> 's io
     \<Rightarrow> ConcordiumTransactionInfo \<Rightarrow> bool" where
  "reachesAmountCheckV1 config payloadV1 requirementsV1 io txInfo =
     (pv1_scheme payloadV1 = ''exact'' \<and> v1_scheme requirementsV1 = ''exact''
      \<and> pv1_network payloadV1 = v1_network requirementsV1
      \<and> lookedUp config (p_txHash (pv1_payload payloadV1)) io = Inr (Some txInfo)
      \<and> status txInfo \<noteq> Failed \<and> status txInfo \<noteq> Pending
      \<and> (if requireFinalization config then status txInfo = Finalized else True)
      \<and> checkSender txInfo (p_sender (pv1_payload payloadV1)) = Pass
      \<and> checkRecipient txInfo (v1_payTo requirementsV1) = Pass)"

definition reachesAssetCheckV1 ::
  "'s ExactConcordiumSchemeConfig \<Rightarrow> PaymentPayloadV1 \<Rightarrow> PaymentRequirementsV1 \<Rightarrow> 's io
     \<Rightarrow> ConcordiumTransactionInfo \<Rightarrow> bool" where
  "reachesAssetCheckV1 config payloadV1 requirementsV1 io txInfo =
     (reachesAmountCheckV1 config payloadV1 requirementsV1 io txInfo
      \<and> checkAmountV1 txInfo (maxAmountRequired requirementsV1) = Pass)"

definition terminal :: "tx_status \<Rightarrow> bool" where
  "terminal s = (s = Finalized \<or> s = Failed)"

text \<open>The calls that an operation added to the record of calls.\<close>

definition callsMade :: "'s io \<Rightarrow> 's io \<Rightarrow> node_call list" where
  "callsMade before after = drop (length (snd before)) (snd after)"

fun isWaitCall :: "node_call \<Rightarrow> bool" where
  "isWaitCall (WaitForFinalization h ms) = True"
| "isWaitCall (GetTransactionStatus h) = False"

text \<open>
  Nodes for the concrete cases: one that keeps a transaction committed, one whose calls
  fail in transport, one whose subscription delivers a finalized transaction that was
  rejected, and the answers of the SDK for a rejected transaction and an unknown one.
\<close>

definition committedNode :: ConcordiumGRPCClientLike where
  "committedNode =
     \<lparr> getBlockItemStatus = (\<lambda>h t. Inr (Some \<lparr> item_status = SdkCommitted, outcome = None \<rparr>)),
       callDuration = 0,
       waitForTransactionFinalization = None \<rparr>"

definition unreachableNode :: ConcordiumGRPCClientLike where
  "unreachableNode =
     \<lparr> getBlockItemStatus = (\<lambda>h t. Inl (Thrown ''Network error'')),
       callDuration = 0,
       waitForTransactionFinalization = None \<rparr>"

definition rejectedSummary :: TransactionSummary where
  "rejectedSummary =
     \<lparr> summary_type = ''transfer'', summary_sender = ''sender-addr'', result_outcome = Reject,
       rejectReason = Some ''Insufficient funds'', transfer = None, contractUpdate = None \<rparr>"

definition rejectedStatus :: BlockItemStatus where
  "rejectedStatus =
     \<lparr> item_status = SdkFinalized,
       outcome = Some \<lparr> outcome_blockHash = Some ''block123'', summary = Some rejectedSummary \<rparr> \<rparr>"

definition rejectingNode :: ConcordiumGRPCClientLike where
  "rejectingNode =
     \<lparr> getBlockItemStatus = (\<lambda>h t. Inr (Some rejectedStatus)),
       callDuration = 0,
       waitForTransactionFinalization =
         Some (\<lambda>h ms t. (Inr (Some \<lparr> finalized_blockHash = ''block123'',
                                       finalized_summary = rejectedSummary \<rparr>), t)) \<rparr>"

definition rejectingSdk :: SdkNodeClient where
  "rejectingSdk =
     \<lparr> sdk_getBlockItemStatus =
         (\<lambda>h t. Inr (Some \<lparr> sdk_status = SdkFinalized, sdk_rejected = True,
                             sdk_senderAddress = Some ''sender-addr'', sdk_transferTo = None,
                             sdk_microCcdAmount = None \<rparr>)),
       sdk_callDuration = 0 \<rparr>"

definition committedSdk :: SdkNodeClient where
  "committedSdk =
     \<lparr> sdk_getBlockItemStatus =
         (\<lambda>h t. Inr (Some \<lparr> sdk_status = SdkCommitted, sdk_rejected = False,
                             sdk_senderAddress = Some senderAddress,
                             sdk_transferTo = Some recipientAddress,
                             sdk_microCcdAmount = Some 1000000 \<rparr>)),
       sdk_callDuration = 0 \<rparr>"

definition emptySdk :: SdkNodeClient where
  "emptySdk = \<lparr> sdk_getBlockItemStatus = (\<lambda>h t. Inr None), sdk_callDuration = 0 \<rparr>"

text \<open>
  What \<open>ConcordiumClient.waitForFinalization\<close> returns from a lookup made at time \<open>u\<close>:
  the throw of the lookup, or the object it returned.
\<close>

definition lastLookup :: "SdkNodeClient \<Rightarrow> string \<Rightarrow> int \<Rightarrow> (js_error + TransactionInfo option) \<times> int" where
  "lastLookup c h u =
     (case fst (client_getTransactionStatus c h u) of
        Inl e \<Rightarrow> (Inl e, snd (client_getTransactionStatus c h u))
      | Inr info \<Rightarrow> (Inr (Some info), snd (client_getTransactionStatus c h u)))"

section \<open>Shared facts about verify\<close>

lemma firstFailure_valid_iff:
  "firstFailure cs who = Inr vr \<Longrightarrow> isValid vr = list_all (\<lambda>c. c = Pass) cs"
proof (induction cs)
  case Nil
  then show ?case by (auto simp: valid_def)
next
  case (Cons c cs)
  then show ?case by (cases c) (auto simp: invalid_def)
qed

lemma firstFailure_reason:
  "firstFailure cs who = Inr vr \<Longrightarrow>
     (if isValid vr then invalidReason vr = None
      else \<exists>r. invalidReason vr = Some r \<and> Fail r \<in> set cs)"
proof (induction cs)
  case Nil
  then show ?case by (auto simp: valid_def)
next
  case (Cons c cs)
  then show ?case by (cases c) (auto simp: invalid_def split: if_splits)
qed

lemma firstFailure_short_circuit:
  "firstFailure (replicate n Pass @ Fail r # rest) who = Inr (invalid r who)"
  by (induction n) simp_all

lemma firstFailure_all_pass:
  "list_all (\<lambda>c. c = Pass) cs \<Longrightarrow> firstFailure cs who = Inr (valid who)"
  by (induction cs) auto

lemma verifyAsset_check:
  "verifyAsset txInfo req who = (case checkAsset txInfo (r_asset req) of
       Fail r \<Rightarrow> invalid r who | _ \<Rightarrow> valid who)"
  by (simp add: verifyAsset_def checkAsset_def nativeOr_def truthy_def Let_def split: option.split)

lemma verifyAmount_check:
  "verifyAmount txInfo req who =
     firstFailure [checkAmount txInfo (r_amount req), checkAsset txInfo (r_asset req)] who"
  by (simp add: verifyAmount_def verifyAsset_def checkAmount_def compareAmounts_def checkAsset_def
        nativeOr_def truthy_def Let_def split: option.split sum.split)

lemma verifyTransaction_checks:
  "verifyTransaction rf txInfo req who =
     firstFailure [checkNotFailed txInfo, checkNotPending txInfo, checkFinalized rf txInfo,
                   checkSender txInfo who, checkRecipient txInfo (payTo req),
                   checkAmount txInfo (r_amount req), checkAsset txInfo (r_asset req)] who"
  by (simp add: verifyTransaction_def verifyAmount_check checkNotFailed_def
        checkNotPending_def checkFinalized_def checkSender_def checkRecipient_def truthy_def
      split: option.split)

lemma verify_checks:
  "fst (verify config pl req io) =
     firstFailure (orderedChecks (requireFinalization config) pl req
                     (lookedUp config (p_txHash (payload pl)) io)) (p_sender (payload pl))"
  by (simp add: verify_def orderedChecks_def lookedUp_def checkScheme_def checkNetwork_def
        checkExists_def verifyTransaction_checks Let_def
      split: prod.split option.split sum.split)

lemma verifyAmountV1_check:
  "verifyAmountV1 txInfo req who =
     firstFailure [checkAmountV1 txInfo (maxAmountRequired req), checkAssetV1 txInfo (v1_asset req)] who"
  by (simp add: verifyAmountV1_def verifyAssetV1_def checkAmountV1_def compareAmounts_def
        checkAssetV1_def nativeOr_def truthy_def Let_def split: option.split sum.split)

lemma verifyTransactionV1_checks:
  "verifyTransactionV1 rf txInfo req who =
     firstFailure [checkNotFailed txInfo, checkNotPending txInfo, checkFinalized rf txInfo,
                   checkSender txInfo who, checkRecipient txInfo (v1_payTo req),
                   checkAmountV1 txInfo (maxAmountRequired req), checkAssetV1 txInfo (v1_asset req)] who"
  by (simp add: verifyTransactionV1_def verifyAmountV1_check checkNotFailed_def
        checkNotPending_def checkFinalized_def checkSender_def checkRecipient_def truthy_def
      split: option.split)

lemma verifyV1_checks:
  "fst (verifyV1 config pl req io) =
     firstFailure (orderedChecksV1 (requireFinalization config) pl req
                     (lookedUp config (p_txHash (pv1_payload pl)) io)) (p_sender (pv1_payload pl))"
  by (simp add: verifyV1_def orderedChecksV1_def lookedUp_def checkScheme_def checkNetwork_def
        checkExists_def verifyTransactionV1_checks Let_def
      split: prod.split option.split sum.split)

section \<open>C1: the order of the checks\<close>

lemma mismatching_checks:
  "orderedChecks True validPayload validRequirements
     (Inr (Some (validTxInfo\<lparr>recipient := Some ''differentAddress'', amount := Some ''500000'',
                              asset := Some ''9390:0:''\<rparr>)))
   = [Pass, Pass, Pass, Pass, Pass, Pass, Pass,
      Fail ''recipient_mismatch'', Fail ''insufficient_amount'', Fail ''asset_mismatch'']"
  by code_simp

lemma mismatching_lookup:
  "lookedUp (testConfig True (Inr (Some (validTxInfo\<lparr>recipient := Some ''differentAddress'',
                 amount := Some ''500000'', asset := Some ''9390:0:''\<rparr>))) (Inr None))
      (p_txHash (payload validPayload)) ((), [])
   = Inr (Some (validTxInfo\<lparr>recipient := Some ''differentAddress'', amount := Some ''500000'',
                              asset := Some ''9390:0:''\<rparr>))"
  by (simp add: lookedUp_def testConfig_def newConfig_def fixedNodeClient_def)

lemma mismatching_checksV1:
  "orderedChecksV1 True validPayloadV1 validRequirementsV1
     (Inr (Some (validTxInfo\<lparr>recipient := Some ''differentAddress'', amount := Some ''500000'',
                              asset := Some ''9390:0:''\<rparr>)))
   = [Pass, Pass, Pass, Pass, Pass, Pass, Pass,
      Fail ''recipient_mismatch'', Fail ''insufficient_amount'', Fail ''asset_mismatch'']"
  by code_simp

lemma mismatching_lookupV1:
  "lookedUp (testConfig True (Inr (Some (validTxInfo\<lparr>recipient := Some ''differentAddress'',
                 amount := Some ''500000'', asset := Some ''9390:0:''\<rparr>))) (Inr None))
      (p_txHash (pv1_payload validPayloadV1)) ((), [])
   = Inr (Some (validTxInfo\<lparr>recipient := Some ''differentAddress'', amount := Some ''500000'',
                              asset := Some ''9390:0:''\<rparr>))"
  by (simp add: lookedUp_def testConfig_def newConfig_def fixedNodeClient_def)

text \<open>
  C1.  \<open>verify\<close> (V2 and V1) returns the verdict of the first check, in the order scheme,
  network, existence of the snapshot, failed state, pending state, finality, sender,
  recipient, amount, asset, that does not pass, and the later checks play no part; it is
  valid, with no reason, exactly when every check of the list passes.  (The existence
  check fails with its own reason when the lookup throws, and a throw of the amount check
  is the result of the call.)
\<close>

theorem verify_first_failing_check:
  "fst (verify config pl req io) =
     firstFailure (orderedChecks (requireFinalization config) pl req
                     (lookedUp config (p_txHash (payload pl)) io)) (p_sender (payload pl))
   \<and> fst (verifyV1 config pl1 req1 io) =
     firstFailure (orderedChecksV1 (requireFinalization config) pl1 req1
                     (lookedUp config (p_txHash (pv1_payload pl1)) io)) (p_sender (pv1_payload pl1))
   \<and> (\<forall>vr. fst (verify config pl req io) = Inr vr \<longrightarrow>
          isValid vr = list_all (\<lambda>c. c = Pass)
                         (orderedChecks (requireFinalization config) pl req
                            (lookedUp config (p_txHash (payload pl)) io))
          \<and> (isValid vr \<longrightarrow> invalidReason vr = None))
   \<and> (\<forall>vr. fst (verifyV1 config pl1 req1 io) = Inr vr \<longrightarrow>
          isValid vr = list_all (\<lambda>c. c = Pass)
                         (orderedChecksV1 (requireFinalization config) pl1 req1
                            (lookedUp config (p_txHash (pv1_payload pl1)) io))
          \<and> (isValid vr \<longrightarrow> invalidReason vr = None))"
proof -
  have v2: "fst (verify config pl req io) =
     firstFailure (orderedChecks (requireFinalization config) pl req
                     (lookedUp config (p_txHash (payload pl)) io)) (p_sender (payload pl))"
    by (rule verify_checks)
  have v1: "fst (verifyV1 config pl1 req1 io) =
     firstFailure (orderedChecksV1 (requireFinalization config) pl1 req1
                     (lookedUp config (p_txHash (pv1_payload pl1)) io)) (p_sender (pv1_payload pl1))"
    by (rule verifyV1_checks)
  show ?thesis
    using v2 v1 firstFailure_valid_iff firstFailure_reason by metis
qed

theorem verify_first_failing_check_witness:
  "fst (verify (testConfig True (Inr (Some (validTxInfo\<lparr>recipient := Some ''differentAddress'',
                  amount := Some ''500000'', asset := Some ''9390:0:''\<rparr>))) (Inr None))
          validPayload validRequirements ((), []))
   = Inr (invalid ''recipient_mismatch'' senderAddress)
   \<and> fst (verifyV1 (testConfig True (Inr (Some (validTxInfo\<lparr>recipient := Some ''differentAddress'',
                  amount := Some ''500000'', asset := Some ''9390:0:''\<rparr>))) (Inr None))
          validPayloadV1 validRequirementsV1 ((), []))
   = Inr (invalid ''recipient_mismatch'' senderAddress)
   \<and> \<not> isValid (invalid ''recipient_mismatch'' senderAddress)"
  using verify_first_failing_check
          [of "testConfig True (Inr (Some (validTxInfo\<lparr>recipient := Some ''differentAddress'',
                  amount := Some ''500000'', asset := Some ''9390:0:''\<rparr>))) (Inr None)"
              validPayload validRequirements "((), [])" validPayloadV1 validRequirementsV1]
        mismatching_checks mismatching_lookup mismatching_checksV1 mismatching_lookupV1
  by (simp add: testConfig_def newConfig_def validPayload_def validPayloadV1_def invalid_def)

section \<open>Shared facts about the calls made and about settle\<close>

lemma verify_io:
  "snd (verify config pl req io) =
     (if scheme (accepted pl) = ''exact'' \<and> scheme req = ''exact''
         \<and> network (accepted pl) = network req
      then (snd (getTransactionStatus (nodeClient config) (p_txHash (payload pl)) (fst io)),
            snd io @ [GetTransactionStatus (p_txHash (payload pl))])
      else io)"
  by (simp add: verify_def Let_def split: prod.split option.split sum.split)

lemma verifyV1_io:
  "snd (verifyV1 config pl req io) =
     (if pv1_scheme pl = ''exact'' \<and> v1_scheme req = ''exact'' \<and> pv1_network pl = v1_network req
      then (snd (getTransactionStatus (nodeClient config) (p_txHash (pv1_payload pl)) (fst io)),
            snd io @ [GetTransactionStatus (p_txHash (pv1_payload pl))])
      else io)"
  by (simp add: verifyV1_def Let_def split: prod.split option.split sum.split)

lemma verify_no_wait_call:
  "\<not> list_ex isWaitCall (callsMade io (snd (verify config pl req io)))"
  by (simp add: verify_io callsMade_def)

lemma verifyV1_no_wait_call:
  "\<not> list_ex isWaitCall (callsMade io (snd (verifyV1 config pl req io)))"
  by (simp add: verifyV1_io callsMade_def)

lemma verify_invalid_reason:
  assumes "fst (verify config pl req io) = Inr vr" and "\<not> isValid vr"
  shows "\<exists>r. invalidReason vr = Some r"
  using firstFailure_reason [OF assms(1) [unfolded verify_checks]] assms(2) by auto

lemma verifyV1_invalid_reason:
  assumes "fst (verifyV1 config pl req io) = Inr vr" and "\<not> isValid vr"
  shows "\<exists>r. invalidReason vr = Some r"
  using firstFailure_reason [OF assms(1) [unfolded verifyV1_checks]] assms(2) by auto

lemma settle_invalid:
  assumes "verify config pl req io = (Inr vr, io1)" and "\<not> isValid vr"
  shows "\<exists>r. invalidReason vr = Some r
              \<and> settle config pl req io = (Inr (settleFailure pl r), io1)"
proof -
  from assms obtain r where r: "invalidReason vr = Some r"
    using verify_invalid_reason [of config pl req io vr] by auto
  with assms show ?thesis by (simp add: settle_def)
qed

lemma settle_no_finality:
  assumes "verify config pl req io = (Inr vr, io1)" and "isValid vr"
    and "\<not> requireFinalization config"
  shows "settle config pl req io = (Inr (settleSuccess pl), io1)"
  using assms by (simp add: settle_def)

lemma settle_finality:
  assumes "verify config pl req io = (Inr vr, io1)" and "isValid vr"
    and "requireFinalization config"
    and "waitForFinalization (nodeClient config) (p_txHash (payload pl))
           (finalizationTimeoutMs config) (fst io1) = (waited, w)"
  shows "settle config pl req io =
           (Inr (case waited of
                   Inl e \<Rightarrow> settleFailure pl ''finalization_failed''
                 | Inr None \<Rightarrow> settleFailure pl ''finalization_timeout''
                 | Inr (Some finalizedTx) \<Rightarrow>
                     if status finalizedTx = Finalized then settleSuccess pl
                     else settleFailure pl ''finalization_timeout''),
            (w, snd io1 @ [WaitForFinalization (p_txHash (payload pl)) (finalizationTimeoutMs config)]))"
  using assms by (simp add: settle_def Let_def split: sum.split option.split)

lemma settleV1_invalid:
  assumes "verifyV1 config pl req io = (Inr vr, io1)" and "\<not> isValid vr"
  shows "\<exists>r. invalidReason vr = Some r
              \<and> settleV1 config pl req io = (Inr (settleFailureV1 pl r), io1)"
proof -
  from assms obtain r where r: "invalidReason vr = Some r"
    using verifyV1_invalid_reason [of config pl req io vr] by auto
  with assms show ?thesis by (simp add: settleV1_def)
qed

lemma settleV1_no_finality:
  assumes "verifyV1 config pl req io = (Inr vr, io1)" and "isValid vr"
    and "\<not> requireFinalization config"
  shows "settleV1 config pl req io = (Inr (settleSuccessV1 pl), io1)"
  using assms by (simp add: settleV1_def)

lemma settleV1_finality:
  assumes "verifyV1 config pl req io = (Inr vr, io1)" and "isValid vr"
    and "requireFinalization config"
    and "waitForFinalization (nodeClient config) (p_txHash (pv1_payload pl))
           (finalizationTimeoutMs config) (fst io1) = (waited, w)"
  shows "settleV1 config pl req io =
           (Inr (case waited of
                   Inl e \<Rightarrow> settleFailureV1 pl ''finalization_failed''
                 | Inr None \<Rightarrow> settleFailureV1 pl ''finalization_timeout''
                 | Inr (Some finalizedTx) \<Rightarrow>
                     if status finalizedTx = Finalized then settleSuccessV1 pl
                     else settleFailureV1 pl ''finalization_timeout''),
            (w, snd io1 @ [WaitForFinalization (p_txHash (pv1_payload pl)) (finalizationTimeoutMs config)]))"
  using assms by (simp add: settleV1_def Let_def split: sum.split option.split)

section \<open>C3: settle\<close>

lemma valid_lookup_verify:
  "verify (testConfig True (Inr (Some validTxInfo)) (Inr None)) validPayload validRequirements ((), [])
     = (Inr (valid senderAddress), ((), [GetTransactionStatus ''abc123'']))"
  by code_simp

lemma valid_lookup_verifyV1:
  "verifyV1 (testConfig True (Inr (Some validTxInfo)) (Inr None)) validPayloadV1 validRequirementsV1
      ((), [])
     = (Inr (valid senderAddress), ((), [GetTransactionStatus ''abc123'']))"
  by code_simp

text \<open>
  C3.  \<open>settle\<close> (V2 and V1) first runs \<open>verify\<close>.  If the verdict is invalid, the
  outcome is a failure whose \<open>errorReason\<close> is the reason of the verdict, in the state
  \<open>verify\<close> left, and no call of \<open>waitForFinalization\<close> was made.  If the verdict is
  valid and finality is not required, the outcome is a success in that same state.  If
  finality is required, \<open>waitForFinalization\<close> is called once with the configured
  timeout: a throw gives \<open>finalization_failed\<close>, an absent result or a snapshot that is
  not finalized gives \<open>finalization_timeout\<close>, a finalized snapshot gives a success.
  Failure and success both carry the transaction hash and the payer.
\<close>

theorem settle_after_verify:
  "(\<forall>vr io1. verify config pl req io = (Inr vr, io1) \<longrightarrow>
      (\<not> isValid vr \<longrightarrow>
         (\<exists>r. invalidReason vr = Some r
               \<and> settle config pl req io = (Inr (settleFailure pl r), io1))
         \<and> \<not> list_ex isWaitCall (callsMade io (snd (settle config pl req io))))
      \<and> (isValid vr \<and> \<not> requireFinalization config \<longrightarrow>
           settle config pl req io = (Inr (settleSuccess pl), io1))
      \<and> (isValid vr \<and> requireFinalization config \<longrightarrow>
           (\<forall>waited w.
              waitForFinalization (nodeClient config) (p_txHash (payload pl))
                (finalizationTimeoutMs config) (fst io1) = (waited, w) \<longrightarrow>
              settle config pl req io =
                (Inr (case waited of
                        Inl e \<Rightarrow> settleFailure pl ''finalization_failed''
                      | Inr None \<Rightarrow> settleFailure pl ''finalization_timeout''
                      | Inr (Some finalizedTx) \<Rightarrow>
                          if status finalizedTx = Finalized then settleSuccess pl
                          else settleFailure pl ''finalization_timeout''),
                 (w, snd io1 @ [WaitForFinalization (p_txHash (payload pl))
                                  (finalizationTimeoutMs config)])))))
   \<and> (\<forall>vr io1. verifyV1 config pl1 req1 io = (Inr vr, io1) \<longrightarrow>
      (\<not> isValid vr \<longrightarrow>
         (\<exists>r. invalidReason vr = Some r
               \<and> settleV1 config pl1 req1 io = (Inr (settleFailureV1 pl1 r), io1))
         \<and> \<not> list_ex isWaitCall (callsMade io (snd (settleV1 config pl1 req1 io))))
      \<and> (isValid vr \<and> \<not> requireFinalization config \<longrightarrow>
           settleV1 config pl1 req1 io = (Inr (settleSuccessV1 pl1), io1))
      \<and> (isValid vr \<and> requireFinalization config \<longrightarrow>
           (\<forall>waited w.
              waitForFinalization (nodeClient config) (p_txHash (pv1_payload pl1))
                (finalizationTimeoutMs config) (fst io1) = (waited, w) \<longrightarrow>
              settleV1 config pl1 req1 io =
                (Inr (case waited of
                        Inl e \<Rightarrow> settleFailureV1 pl1 ''finalization_failed''
                      | Inr None \<Rightarrow> settleFailureV1 pl1 ''finalization_timeout''
                      | Inr (Some finalizedTx) \<Rightarrow>
                          if status finalizedTx = Finalized then settleSuccessV1 pl1
                          else settleFailureV1 pl1 ''finalization_timeout''),
                 (w, snd io1 @ [WaitForFinalization (p_txHash (pv1_payload pl1))
                                  (finalizationTimeoutMs config)])))))
   \<and> success (settleSuccess pl) \<and> transaction (settleSuccess pl) = p_txHash (payload pl)
   \<and> s_payer (settleSuccess pl) = p_sender (payload pl)
   \<and> \<not> success (settleFailure pl reason) \<and> errorReason (settleFailure pl reason) = Some reason
   \<and> success (settleSuccessV1 pl1) \<and> transaction (settleSuccessV1 pl1) = p_txHash (pv1_payload pl1)
   \<and> s_payer (settleSuccessV1 pl1) = p_sender (pv1_payload pl1)
   \<and> \<not> success (settleFailureV1 pl1 reason) \<and> errorReason (settleFailureV1 pl1 reason) = Some reason"
proof -
  have v2: "\<forall>vr io1. verify config pl req io = (Inr vr, io1) \<longrightarrow>
      (\<not> isValid vr \<longrightarrow>
         (\<exists>r. invalidReason vr = Some r
               \<and> settle config pl req io = (Inr (settleFailure pl r), io1))
         \<and> \<not> list_ex isWaitCall (callsMade io (snd (settle config pl req io))))
      \<and> (isValid vr \<and> \<not> requireFinalization config \<longrightarrow>
           settle config pl req io = (Inr (settleSuccess pl), io1))
      \<and> (isValid vr \<and> requireFinalization config \<longrightarrow>
           (\<forall>waited w.
              waitForFinalization (nodeClient config) (p_txHash (payload pl))
                (finalizationTimeoutMs config) (fst io1) = (waited, w) \<longrightarrow>
              settle config pl req io =
                (Inr (case waited of
                        Inl e \<Rightarrow> settleFailure pl ''finalization_failed''
                      | Inr None \<Rightarrow> settleFailure pl ''finalization_timeout''
                      | Inr (Some finalizedTx) \<Rightarrow>
                          if status finalizedTx = Finalized then settleSuccess pl
                          else settleFailure pl ''finalization_timeout''),
                 (w, snd io1 @ [WaitForFinalization (p_txHash (payload pl))
                                  (finalizationTimeoutMs config)]))))"
  proof (intro allI impI conjI)
    fix vr io1
    assume v: "verify config pl req io = (Inr vr, io1)" and inv: "\<not> isValid vr"
    from settle_invalid [OF v inv]
    show "\<exists>r. invalidReason vr = Some r
               \<and> settle config pl req io = (Inr (settleFailure pl r), io1)" .
    from settle_invalid [OF v inv] have "snd (settle config pl req io) = snd (verify config pl req io)"
      using v by auto
    then show "\<not> list_ex isWaitCall (callsMade io (snd (settle config pl req io)))"
      using verify_no_wait_call [of io config pl req] by simp
  next
    fix vr io1
    assume v: "verify config pl req io = (Inr vr, io1)"
      and h: "isValid vr \<and> \<not> requireFinalization config"
    show "settle config pl req io = (Inr (settleSuccess pl), io1)"
      using settle_no_finality [OF v conjunct1 [OF h] conjunct2 [OF h]] .
  next
    fix vr io1 waited w
    assume v: "verify config pl req io = (Inr vr, io1)"
      and h: "isValid vr \<and> requireFinalization config"
      and wf: "waitForFinalization (nodeClient config) (p_txHash (payload pl))
                (finalizationTimeoutMs config) (fst io1) = (waited, w)"
    show "settle config pl req io =
                (Inr (case waited of
                        Inl e \<Rightarrow> settleFailure pl ''finalization_failed''
                      | Inr None \<Rightarrow> settleFailure pl ''finalization_timeout''
                      | Inr (Some finalizedTx) \<Rightarrow>
                          if status finalizedTx = Finalized then settleSuccess pl
                          else settleFailure pl ''finalization_timeout''),
                 (w, snd io1 @ [WaitForFinalization (p_txHash (payload pl))
                                  (finalizationTimeoutMs config)]))"
      using settle_finality [OF v conjunct1 [OF h] conjunct2 [OF h] wf] .
  qed
  have v1: "\<forall>vr io1. verifyV1 config pl1 req1 io = (Inr vr, io1) \<longrightarrow>
      (\<not> isValid vr \<longrightarrow>
         (\<exists>r. invalidReason vr = Some r
               \<and> settleV1 config pl1 req1 io = (Inr (settleFailureV1 pl1 r), io1))
         \<and> \<not> list_ex isWaitCall (callsMade io (snd (settleV1 config pl1 req1 io))))
      \<and> (isValid vr \<and> \<not> requireFinalization config \<longrightarrow>
           settleV1 config pl1 req1 io = (Inr (settleSuccessV1 pl1), io1))
      \<and> (isValid vr \<and> requireFinalization config \<longrightarrow>
           (\<forall>waited w.
              waitForFinalization (nodeClient config) (p_txHash (pv1_payload pl1))
                (finalizationTimeoutMs config) (fst io1) = (waited, w) \<longrightarrow>
              settleV1 config pl1 req1 io =
                (Inr (case waited of
                        Inl e \<Rightarrow> settleFailureV1 pl1 ''finalization_failed''
                      | Inr None \<Rightarrow> settleFailureV1 pl1 ''finalization_timeout''
                      | Inr (Some finalizedTx) \<Rightarrow>
                          if status finalizedTx = Finalized then settleSuccessV1 pl1
                          else settleFailureV1 pl1 ''finalization_timeout''),
                 (w, snd io1 @ [WaitForFinalization (p_txHash (pv1_payload pl1))
                                  (finalizationTimeoutMs config)]))))"
  proof (intro allI impI conjI)
    fix vr io1
    assume v: "verifyV1 config pl1 req1 io = (Inr vr, io1)" and inv: "\<not> isValid vr"
    from settleV1_invalid [OF v inv]
    show "\<exists>r. invalidReason vr = Some r
               \<and> settleV1 config pl1 req1 io = (Inr (settleFailureV1 pl1 r), io1)" .
    from settleV1_invalid [OF v inv]
    have "snd (settleV1 config pl1 req1 io) = snd (verifyV1 config pl1 req1 io)"
      using v by auto
    then show "\<not> list_ex isWaitCall (callsMade io (snd (settleV1 config pl1 req1 io)))"
      using verifyV1_no_wait_call [of io config pl1 req1] by simp
  next
    fix vr io1
    assume v: "verifyV1 config pl1 req1 io = (Inr vr, io1)"
      and h: "isValid vr \<and> \<not> requireFinalization config"
    show "settleV1 config pl1 req1 io = (Inr (settleSuccessV1 pl1), io1)"
      using settleV1_no_finality [OF v conjunct1 [OF h] conjunct2 [OF h]] .
  next
    fix vr io1 waited w
    assume v: "verifyV1 config pl1 req1 io = (Inr vr, io1)"
      and h: "isValid vr \<and> requireFinalization config"
      and wf: "waitForFinalization (nodeClient config) (p_txHash (pv1_payload pl1))
                (finalizationTimeoutMs config) (fst io1) = (waited, w)"
    show "settleV1 config pl1 req1 io =
                (Inr (case waited of
                        Inl e \<Rightarrow> settleFailureV1 pl1 ''finalization_failed''
                      | Inr None \<Rightarrow> settleFailureV1 pl1 ''finalization_timeout''
                      | Inr (Some finalizedTx) \<Rightarrow>
                          if status finalizedTx = Finalized then settleSuccessV1 pl1
                          else settleFailureV1 pl1 ''finalization_timeout''),
                 (w, snd io1 @ [WaitForFinalization (p_txHash (pv1_payload pl1))
                                  (finalizationTimeoutMs config)]))"
      using settleV1_finality [OF v conjunct1 [OF h] conjunct2 [OF h] wf] .
  qed
  have fields: "success (settleSuccess pl) \<and> transaction (settleSuccess pl) = p_txHash (payload pl)
   \<and> s_payer (settleSuccess pl) = p_sender (payload pl)
   \<and> \<not> success (settleFailure pl reason) \<and> errorReason (settleFailure pl reason) = Some reason
   \<and> success (settleSuccessV1 pl1) \<and> transaction (settleSuccessV1 pl1) = p_txHash (pv1_payload pl1)
   \<and> s_payer (settleSuccessV1 pl1) = p_sender (pv1_payload pl1)
   \<and> \<not> success (settleFailureV1 pl1 reason) \<and> errorReason (settleFailureV1 pl1 reason) = Some reason"
    by (simp add: settleSuccess_def settleFailure_def settleSuccessV1_def settleFailureV1_def)
  from v2 v1 fields show ?thesis by blast
qed

theorem settle_after_verify_witness:
  "verify (testConfig True (Inr (Some validTxInfo)) (Inr None)) validPayload validRequirements ((), [])
     = (Inr (valid senderAddress), ((), [GetTransactionStatus ''abc123'']))
   \<and> verifyV1 (testConfig True (Inr (Some validTxInfo)) (Inr None)) validPayloadV1
        validRequirementsV1 ((), [])
     = (Inr (valid senderAddress), ((), [GetTransactionStatus ''abc123'']))
   \<and> isValid (valid senderAddress)
   \<and> requireFinalization (testConfig True (Inr (Some validTxInfo)) (Inr None))
   \<and> settle (testConfig True (Inr (Some validTxInfo)) (Inr None)) validPayload validRequirements ((), [])
     = (Inr (settleFailure validPayload ''finalization_timeout''),
        ((), [GetTransactionStatus ''abc123'', WaitForFinalization ''abc123'' 60000]))
   \<and> settleV1 (testConfig True (Inr (Some validTxInfo)) (Inr None)) validPayloadV1
        validRequirementsV1 ((), [])
     = (Inr (settleFailureV1 validPayloadV1 ''finalization_timeout''),
        ((), [GetTransactionStatus ''abc123'', WaitForFinalization ''abc123'' 60000]))"
  using settle_after_verify
          [of "testConfig True (Inr (Some validTxInfo)) (Inr None)" validPayload validRequirements
              "((), [])" validPayloadV1 validRequirementsV1]
        valid_lookup_verify valid_lookup_verifyV1
  by (simp add: testConfig_def newConfig_def fixedNodeClient_def valid_def validPayload_def
        validPayloadV1_def)

section \<open>C9: the calls verify makes\<close>

lemma wrong_scheme_calls:
  "callsMade ((), [])
     (snd (verify (testConfig True (Inr (Some validTxInfo)) (Inr None))
             (validPayload\<lparr>accepted := validRequirements\<lparr>scheme := ''other''\<rparr>\<rparr>)
             (validRequirements\<lparr>scheme := ''other''\<rparr>) ((), []))) = []"
  by code_simp

text \<open>
  C9, as stated, fails: with a scheme tag other than \<open>exact\<close> (the unit test "should
  reject wrong scheme") \<open>verify\<close> returns before the lookup and calls the node client
  not at all.
\<close>

theorem verify_without_lookup:
  "length (callsMade ((), [])
     (snd (verify (testConfig True (Inr (Some validTxInfo)) (Inr None))
             (validPayload\<lparr>accepted := validRequirements\<lparr>scheme := ''other''\<rparr>\<rparr>)
             (validRequirements\<lparr>scheme := ''other''\<rparr>) ((), [])))) \<noteq> 1"
  by (simp add: wrong_scheme_calls)

text \<open>
  C9, amended.  \<open>verify\<close> makes exactly one status lookup when the scheme and network
  checks pass, and none otherwise; it never calls \<open>waitForFinalization\<close>; and when
  finality is required and the snapshot is committed, the verdict is
  \<open>transaction_not_finalized\<close>.
\<close>

theorem verify_lookup_calls:
  "callsMade io (snd (verify config pl req io)) =
     (if scheme (accepted pl) = ''exact'' \<and> scheme req = ''exact''
         \<and> network (accepted pl) = network req
      then [GetTransactionStatus (p_txHash (payload pl))] else [])
   \<and> \<not> list_ex isWaitCall (callsMade io (snd (verify config pl req io)))
   \<and> (requireFinalization config \<and> scheme (accepted pl) = ''exact'' \<and> scheme req = ''exact''
        \<and> network (accepted pl) = network req
        \<and> lookedUp config (p_txHash (payload pl)) io = Inr (Some txInfo)
        \<and> status txInfo = Committed
      \<longrightarrow> fst (verify config pl req io)
            = Inr (invalid ''transaction_not_finalized'' (p_sender (payload pl))))"
proof (intro conjI impI)
  show "callsMade io (snd (verify config pl req io)) =
     (if scheme (accepted pl) = ''exact'' \<and> scheme req = ''exact''
         \<and> network (accepted pl) = network req
      then [GetTransactionStatus (p_txHash (payload pl))] else [])"
    by (simp add: verify_io callsMade_def)
  show "\<not> list_ex isWaitCall (callsMade io (snd (verify config pl req io)))"
    by (rule verify_no_wait_call)
next
  assume "requireFinalization config \<and> scheme (accepted pl) = ''exact'' \<and> scheme req = ''exact''
        \<and> network (accepted pl) = network req
        \<and> lookedUp config (p_txHash (payload pl)) io = Inr (Some txInfo)
        \<and> status txInfo = Committed"
  then show "fst (verify config pl req io)
            = Inr (invalid ''transaction_not_finalized'' (p_sender (payload pl)))"
    by (simp add: verify_checks orderedChecks_def checkScheme_def checkNetwork_def checkExists_def
          checkNotFailed_def checkNotPending_def checkFinalized_def)
qed

theorem verify_lookup_calls_witness:
  "requireFinalization (testConfig True (Inr (Some (validTxInfo\<lparr>status := Committed\<rparr>))) (Inr None))
   \<and> lookedUp (testConfig True (Inr (Some (validTxInfo\<lparr>status := Committed\<rparr>))) (Inr None))
        (p_txHash (payload validPayload)) ((), [])
      = Inr (Some (validTxInfo\<lparr>status := Committed\<rparr>))
   \<and> status (validTxInfo\<lparr>status := Committed\<rparr>) = Committed
   \<and> verify (testConfig True (Inr (Some (validTxInfo\<lparr>status := Committed\<rparr>))) (Inr None))
        validPayload validRequirements ((), [])
      = (Inr (invalid ''transaction_not_finalized'' senderAddress),
         ((), [GetTransactionStatus ''abc123'']))"
  using verify_lookup_calls
          [of "((), [])" "testConfig True (Inr (Some (validTxInfo\<lparr>status := Committed\<rparr>))) (Inr None)"
              validPayload validRequirements "validTxInfo\<lparr>status := Committed\<rparr>"]
  by (simp add: testConfig_def newConfig_def fixedNodeClient_def lookedUp_def validPayload_def
        validRequirements_def callsMade_def prod_eq_iff)

section \<open>C8: a lookup that fails and a transaction that is absent\<close>

lemma unreachable_verify:
  "fst (verify (newConfig (createConcordiumNodeClient unreachableNode) None None)
          validPayload validRequirements (0, []))
   = Inr (invalid ''transaction_not_found'' senderAddress)"
  by code_simp

text \<open>
  C8, as stated, fails: when the call to the node throws (the unit test "should handle
  grpc error gracefully"), \<open>getTransactionStatus\<close> of the gRPC node client returns
  \<open>null\<close>, and \<open>verify\<close> over this client reports \<open>transaction_not_found\<close>.
\<close>

theorem transport_error_reported_absent:
  "getBlockItemStatus unreachableNode ''abc123'' 0 = Inl (Thrown ''Network error'')
   \<and> fst (node_getTransactionStatus unreachableNode ''abc123'' 0) = None
   \<and> fst (verify (newConfig (createConcordiumNodeClient unreachableNode) None None)
            validPayload validRequirements (0, []))
     = Inr (invalid ''transaction_not_found'' senderAddress)"
  by (simp add: unreachable_verify) (simp add: unreachableNode_def node_getTransactionStatus_def)

text \<open>
  C8, amended.  \<open>getTransactionStatus\<close> of the gRPC node client never throws; it returns
  absent when the node has no record of the transaction and also when the call to the
  node throws, and the mapped snapshot otherwise.  \<open>verify\<close>, once the scheme and network
  checks have passed, reports \<open>transaction_lookup_failed\<close> for a lookup that throws and
  \<open>transaction_not_found\<close> for an absent result.
\<close>

theorem lookup_failure_and_absence:
  "(fst (node_getTransactionStatus g h t) = None
      \<longleftrightarrow> getBlockItemStatus g h t = Inr None \<or> (\<exists>e. getBlockItemStatus g h t = Inl e))
   \<and> (\<forall>st. getBlockItemStatus g h t = Inr (Some st)
         \<longrightarrow> fst (node_getTransactionStatus g h t) = Some (mapTransactionStatus h st))
   \<and> fst (getTransactionStatus (createConcordiumNodeClient g) h t)
       = Inr (fst (node_getTransactionStatus g h t))
   \<and> (scheme (accepted pl) = ''exact'' \<and> scheme req = ''exact''
        \<and> network (accepted pl) = network req
      \<longrightarrow> (\<forall>e. lookedUp config (p_txHash (payload pl)) io = Inl e
              \<longrightarrow> fst (verify config pl req io)
                    = Inr (invalid ''transaction_lookup_failed'' (p_sender (payload pl))))
          \<and> (lookedUp config (p_txHash (payload pl)) io = Inr None
              \<longrightarrow> fst (verify config pl req io)
                    = Inr (invalid ''transaction_not_found'' (p_sender (payload pl)))))"
proof (intro conjI impI allI)
  show "fst (node_getTransactionStatus g h t) = None
      \<longleftrightarrow> getBlockItemStatus g h t = Inr None \<or> (\<exists>e. getBlockItemStatus g h t = Inl e)"
    by (simp add: node_getTransactionStatus_def split: sum.split option.split)
  show "fst (getTransactionStatus (createConcordiumNodeClient g) h t)
       = Inr (fst (node_getTransactionStatus g h t))"
    by (simp add: createConcordiumNodeClient_def split: prod.split)
next
  fix st assume "getBlockItemStatus g h t = Inr (Some st)"
  then show "fst (node_getTransactionStatus g h t) = Some (mapTransactionStatus h st)"
    by (simp add: node_getTransactionStatus_def)
next
  fix e
  assume "scheme (accepted pl) = ''exact'' \<and> scheme req = ''exact''
        \<and> network (accepted pl) = network req"
    and "lookedUp config (p_txHash (payload pl)) io = Inl e"
  then show "fst (verify config pl req io)
                    = Inr (invalid ''transaction_lookup_failed'' (p_sender (payload pl)))"
    by (simp add: verify_checks orderedChecks_def checkScheme_def checkNetwork_def checkExists_def)
next
  assume "scheme (accepted pl) = ''exact'' \<and> scheme req = ''exact''
        \<and> network (accepted pl) = network req"
    and "lookedUp config (p_txHash (payload pl)) io = Inr None"
  then show "fst (verify config pl req io)
                    = Inr (invalid ''transaction_not_found'' (p_sender (payload pl)))"
    by (simp add: verify_checks orderedChecks_def checkScheme_def checkNetwork_def checkExists_def)
qed

theorem lookup_failure_and_absence_witness:
  "lookedUp (testConfig True (Inl (Thrown ''Network error'')) (Inr None))
      (p_txHash (payload validPayload)) ((), []) = Inl (Thrown ''Network error'')
   \<and> fst (verify (testConfig True (Inl (Thrown ''Network error'')) (Inr None))
            validPayload validRequirements ((), []))
     = Inr (invalid ''transaction_lookup_failed'' senderAddress)
   \<and> fst (node_getTransactionStatus committedNode ''abc123'' 0)
     = Some (mapTransactionStatus ''abc123'' \<lparr> item_status = SdkCommitted, outcome = None \<rparr>)"
  using lookup_failure_and_absence
          [of committedNode "''abc123''" 0 validPayload validRequirements
              "testConfig True (Inl (Thrown ''Network error'')) (Inr None)" "((), [])"]
  by (simp add: testConfig_def newConfig_def fixedNodeClient_def lookedUp_def validPayload_def
        validRequirements_def committedNode_def)

section \<open>The amount and asset checks\<close>

lemma reaches_amount_verify:
  assumes "reachesAmountCheck config pl req io txInfo"
  shows "fst (verify config pl req io) = verifyAmount txInfo req (p_sender (payload pl))"
  using assms
  by (simp add: reachesAmountCheck_def verify_checks verifyAmount_check orderedChecks_def
        checkScheme_def checkNetwork_def checkExists_def checkNotFailed_def checkNotPending_def
        checkFinalized_def split: if_splits)

lemma reaches_amount_verifyV1:
  assumes "reachesAmountCheckV1 config pl req io txInfo"
  shows "fst (verifyV1 config pl req io) = verifyAmountV1 txInfo req (p_sender (pv1_payload pl))"
  using assms
  by (simp add: reachesAmountCheckV1_def verifyV1_checks verifyAmountV1_check orderedChecksV1_def
        checkScheme_def checkNetwork_def checkExists_def checkNotFailed_def checkNotPending_def
        checkFinalized_def split: if_splits)

lemma settle_throws:
  "fst (verify config pl req io) = Inl e \<Longrightarrow> fst (settle config pl req io) = Inl e"
  by (cases "verify config pl req io") (simp add: settle_def)

lemma settleV1_throws:
  "fst (verifyV1 config pl req io) = Inl e \<Longrightarrow> fst (settleV1 config pl req io) = Inl e"
  by (cases "verifyV1 config pl req io") (simp add: settleV1_def)

lemma verifyAmount_throws:
  assumes "amount txInfo = Some a" and "a \<noteq> []"
    and "BigInt a = Inl e \<or> (\<exists>p. BigInt a = Inr p) \<and> BigInt (r_amount req) = Inl e"
  shows "verifyAmount txInfo req who = Inl e"
  using assms by (auto simp: verifyAmount_def truthy_def)

lemma verifyAmountV1_throws:
  assumes "amount txInfo = Some a" and "a \<noteq> []"
    and "BigInt a = Inl e \<or> (\<exists>p. BigInt a = Inr p) \<and> BigInt (maxAmountRequired req) = Inl e"
  shows "verifyAmountV1 txInfo req who = Inl e"
  using assms by (auto simp: verifyAmountV1_def truthy_def)

section \<open>C4: a fault that leaves verify and settle\<close>

lemma malformed_amount_reaches:
  "reachesAmountCheck (testConfig True (Inr (Some (validTxInfo\<lparr>amount := Some ''1.5''\<rparr>))) (Inr None))
     validPayload validRequirements ((), []) (validTxInfo\<lparr>amount := Some ''1.5''\<rparr>)"
  by code_simp

lemma malformed_amount_BigInt: "BigInt ''1.5'' = Inl SyntaxError"
  by code_simp

lemma malformed_amount_reachesV1:
  "reachesAmountCheckV1 (testConfig True (Inr (Some (validTxInfo\<lparr>amount := Some ''1.5''\<rparr>))) (Inr None))
     validPayloadV1 validRequirementsV1 ((), []) (validTxInfo\<lparr>amount := Some ''1.5''\<rparr>)"
  by code_simp

text \<open>
  C4 does not hold of the code.  \<open>verify\<close> (V2 and V1) applies \<open>BigInt\<close> to the amount
  of the snapshot and to the required amount outside any \<open>try\<close>: when the call reaches
  the amount check with a non-empty amount and one of the two strings is not an integer
  literal, the SyntaxError is the result of \<open>verify\<close>, and of \<open>settle\<close>, which awaits
  \<open>verify\<close> outside its own \<open>try\<close>.
\<close>

theorem bigint_error_escapes:
  "(reachesAmountCheck config pl req io txInfo \<and> amount txInfo = Some a \<and> a \<noteq> []
      \<and> (BigInt a = Inl e \<or> (\<exists>p. BigInt a = Inr p) \<and> BigInt (r_amount req) = Inl e)
    \<longrightarrow> fst (verify config pl req io) = Inl e \<and> fst (settle config pl req io) = Inl e)
   \<and> (reachesAmountCheckV1 config pl1 req1 io txInfo \<and> amount txInfo = Some a \<and> a \<noteq> []
      \<and> (BigInt a = Inl e \<or> (\<exists>p. BigInt a = Inr p) \<and> BigInt (maxAmountRequired req1) = Inl e)
    \<longrightarrow> fst (verifyV1 config pl1 req1 io) = Inl e \<and> fst (settleV1 config pl1 req1 io) = Inl e)"
proof (intro conjI impI)
  assume h: "reachesAmountCheck config pl req io txInfo \<and> amount txInfo = Some a \<and> a \<noteq> []
      \<and> (BigInt a = Inl e \<or> (\<exists>p. BigInt a = Inr p) \<and> BigInt (r_amount req) = Inl e)"
  then have "verifyAmount txInfo req (p_sender (payload pl)) = Inl e"
    using verifyAmount_throws [of txInfo a e req] by blast
  with h show v: "fst (verify config pl req io) = Inl e"
    using reaches_amount_verify [of config pl req io txInfo] by simp
  then show "fst (settle config pl req io) = Inl e"
    by (rule settle_throws)
next
  assume h: "reachesAmountCheckV1 config pl1 req1 io txInfo \<and> amount txInfo = Some a \<and> a \<noteq> []
      \<and> (BigInt a = Inl e \<or> (\<exists>p. BigInt a = Inr p) \<and> BigInt (maxAmountRequired req1) = Inl e)"
  then have "verifyAmountV1 txInfo req1 (p_sender (pv1_payload pl1)) = Inl e"
    using verifyAmountV1_throws [of txInfo a e req1] by blast
  with h show v: "fst (verifyV1 config pl1 req1 io) = Inl e"
    using reaches_amount_verifyV1 [of config pl1 req1 io txInfo] by simp
  then show "fst (settleV1 config pl1 req1 io) = Inl e"
    by (rule settleV1_throws)
qed

theorem bigint_error_escapes_witness:
  "reachesAmountCheck (testConfig True (Inr (Some (validTxInfo\<lparr>amount := Some ''1.5''\<rparr>))) (Inr None))
     validPayload validRequirements ((), []) (validTxInfo\<lparr>amount := Some ''1.5''\<rparr>)
   \<and> reachesAmountCheckV1 (testConfig True (Inr (Some (validTxInfo\<lparr>amount := Some ''1.5''\<rparr>))) (Inr None))
     validPayloadV1 validRequirementsV1 ((), []) (validTxInfo\<lparr>amount := Some ''1.5''\<rparr>)
   \<and> BigInt ''1.5'' = Inl SyntaxError
   \<and> fst (verify (testConfig True (Inr (Some (validTxInfo\<lparr>amount := Some ''1.5''\<rparr>))) (Inr None))
            validPayload validRequirements ((), [])) = Inl SyntaxError
   \<and> fst (settle (testConfig True (Inr (Some (validTxInfo\<lparr>amount := Some ''1.5''\<rparr>))) (Inr None))
            validPayload validRequirements ((), [])) = Inl SyntaxError
   \<and> fst (verifyV1 (testConfig True (Inr (Some (validTxInfo\<lparr>amount := Some ''1.5''\<rparr>))) (Inr None))
            validPayloadV1 validRequirementsV1 ((), [])) = Inl SyntaxError
   \<and> fst (settleV1 (testConfig True (Inr (Some (validTxInfo\<lparr>amount := Some ''1.5''\<rparr>))) (Inr None))
            validPayloadV1 validRequirementsV1 ((), [])) = Inl SyntaxError"
  using bigint_error_escapes
          [of "testConfig True (Inr (Some (validTxInfo\<lparr>amount := Some ''1.5''\<rparr>))) (Inr None)"
              validPayload validRequirements "((), [])" "validTxInfo\<lparr>amount := Some ''1.5''\<rparr>"
              "''1.5''" SyntaxError validPayloadV1 validRequirementsV1]
        malformed_amount_reaches malformed_amount_reachesV1 malformed_amount_BigInt
  by simp

section \<open>C5: the amount check\<close>

lemma verifyAsset_reason:
  "invalidReason (verifyAsset txInfo req who) \<noteq> Some ''insufficient_amount''"
  by (simp add: verifyAsset_def valid_def invalid_def Let_def split: option.split)

lemma verifyAssetV1_reason:
  "invalidReason (verifyAssetV1 txInfo req who) \<noteq> Some ''insufficient_amount''"
  by (simp add: verifyAssetV1_def valid_def invalid_def Let_def)

lemma overpaid_reaches:
  "reachesAmountCheck (testConfig True (Inr (Some (validTxInfo\<lparr>amount := Some ''2000000''\<rparr>))) (Inr None))
     validPayload validRequirements ((), []) (validTxInfo\<lparr>amount := Some ''2000000''\<rparr>)"
  by code_simp

lemma overpaid_amounts:
  "BigInt ''2000000'' = Inr 2000000 \<and> BigInt (r_amount validRequirements) = Inr 1000000"
  by code_simp

lemma overpaid_asset:
  "verifyAsset (validTxInfo\<lparr>amount := Some ''2000000''\<rparr>) validRequirements senderAddress
     = valid senderAddress"
  by code_simp

lemma overpaid_reachesV1:
  "reachesAmountCheckV1 (testConfig True (Inr (Some (validTxInfo\<lparr>amount := Some ''2000000''\<rparr>))) (Inr None))
     validPayloadV1 validRequirementsV1 ((), []) (validTxInfo\<lparr>amount := Some ''2000000''\<rparr>)"
  by code_simp

lemma overpaid_amountsV1:
  "BigInt (maxAmountRequired validRequirementsV1) = Inr 1000000"
  by code_simp

lemma overpaid_assetV1:
  "verifyAssetV1 (validTxInfo\<lparr>amount := Some ''2000000''\<rparr>) validRequirementsV1 senderAddress
     = valid senderAddress"
  by code_simp

text \<open>
  C5, as stated, fails on the V1 scheme: there a snapshot without an amount does not skip
  the amount check, it fails it.
\<close>

theorem absent_amount_fails_in_v1:
  "fst (verifyV1 (testConfig True (Inr (Some (validTxInfo\<lparr>amount := None\<rparr>))) (Inr None))
          validPayloadV1 validRequirementsV1 ((), []))
   = Inr (invalid ''insufficient_amount'' senderAddress)"
  by code_simp

text \<open>
  C5, amended.  When a call reaches the amount check with a non-empty amount and both
  amounts are integer literals, \<open>verify\<close> (V2 and V1) compares them as unbounded integers:
  a paid amount below the required one gives \<open>insufficient_amount\<close>, any other passes on
  to the asset check (which never gives \<open>insufficient_amount\<close>).  When the amount is
  absent or empty, V2 skips the check and passes on to the asset check, and V1 gives
  \<open>insufficient_amount\<close>.
\<close>

theorem amount_check_compares_integers:
  "(reachesAmountCheck config pl req io txInfo \<longrightarrow>
      (amount txInfo = None \<or> amount txInfo = Some [] \<longrightarrow>
         fst (verify config pl req io) = Inr (verifyAsset txInfo req (p_sender (payload pl))))
      \<and> (\<forall>a p q. amount txInfo = Some a \<and> a \<noteq> [] \<and> BigInt a = Inr p
                    \<and> BigInt (r_amount req) = Inr q \<longrightarrow>
            (p < q \<longrightarrow> fst (verify config pl req io)
                          = Inr (invalid ''insufficient_amount'' (p_sender (payload pl))))
            \<and> (q \<le> p \<longrightarrow> fst (verify config pl req io)
                          = Inr (verifyAsset txInfo req (p_sender (payload pl))))))
   \<and> (reachesAmountCheckV1 config pl1 req1 io txInfo \<longrightarrow>
      (amount txInfo = None \<or> amount txInfo = Some [] \<longrightarrow>
         fst (verifyV1 config pl1 req1 io)
           = Inr (invalid ''insufficient_amount'' (p_sender (pv1_payload pl1))))
      \<and> (\<forall>a p q. amount txInfo = Some a \<and> a \<noteq> [] \<and> BigInt a = Inr p
                    \<and> BigInt (maxAmountRequired req1) = Inr q \<longrightarrow>
            (p < q \<longrightarrow> fst (verifyV1 config pl1 req1 io)
                          = Inr (invalid ''insufficient_amount'' (p_sender (pv1_payload pl1))))
            \<and> (q \<le> p \<longrightarrow> fst (verifyV1 config pl1 req1 io)
                          = Inr (verifyAssetV1 txInfo req1 (p_sender (pv1_payload pl1))))))
   \<and> invalidReason (verifyAsset txInfo req (p_sender (payload pl))) \<noteq> Some ''insufficient_amount''
   \<and> invalidReason (verifyAssetV1 txInfo req1 (p_sender (pv1_payload pl1)))
       \<noteq> Some ''insufficient_amount''"
proof -
  have v2: "reachesAmountCheck config pl req io txInfo \<longrightarrow>
      (amount txInfo = None \<or> amount txInfo = Some [] \<longrightarrow>
         fst (verify config pl req io) = Inr (verifyAsset txInfo req (p_sender (payload pl))))
      \<and> (\<forall>a p q. amount txInfo = Some a \<and> a \<noteq> [] \<and> BigInt a = Inr p
                    \<and> BigInt (r_amount req) = Inr q \<longrightarrow>
            (p < q \<longrightarrow> fst (verify config pl req io)
                          = Inr (invalid ''insufficient_amount'' (p_sender (payload pl))))
            \<and> (q \<le> p \<longrightarrow> fst (verify config pl req io)
                          = Inr (verifyAsset txInfo req (p_sender (payload pl)))))"
  proof
    assume r: "reachesAmountCheck config pl req io txInfo"
    show "(amount txInfo = None \<or> amount txInfo = Some [] \<longrightarrow>
         fst (verify config pl req io) = Inr (verifyAsset txInfo req (p_sender (payload pl))))
      \<and> (\<forall>a p q. amount txInfo = Some a \<and> a \<noteq> [] \<and> BigInt a = Inr p
                    \<and> BigInt (r_amount req) = Inr q \<longrightarrow>
            (p < q \<longrightarrow> fst (verify config pl req io)
                          = Inr (invalid ''insufficient_amount'' (p_sender (payload pl))))
            \<and> (q \<le> p \<longrightarrow> fst (verify config pl req io)
                          = Inr (verifyAsset txInfo req (p_sender (payload pl)))))"
      unfolding reaches_amount_verify [OF r]
      by (auto simp: verifyAmount_def truthy_def)
  qed
  have v1: "reachesAmountCheckV1 config pl1 req1 io txInfo \<longrightarrow>
      (amount txInfo = None \<or> amount txInfo = Some [] \<longrightarrow>
         fst (verifyV1 config pl1 req1 io)
           = Inr (invalid ''insufficient_amount'' (p_sender (pv1_payload pl1))))
      \<and> (\<forall>a p q. amount txInfo = Some a \<and> a \<noteq> [] \<and> BigInt a = Inr p
                    \<and> BigInt (maxAmountRequired req1) = Inr q \<longrightarrow>
            (p < q \<longrightarrow> fst (verifyV1 config pl1 req1 io)
                          = Inr (invalid ''insufficient_amount'' (p_sender (pv1_payload pl1))))
            \<and> (q \<le> p \<longrightarrow> fst (verifyV1 config pl1 req1 io)
                          = Inr (verifyAssetV1 txInfo req1 (p_sender (pv1_payload pl1)))))"
  proof
    assume r: "reachesAmountCheckV1 config pl1 req1 io txInfo"
    show "(amount txInfo = None \<or> amount txInfo = Some [] \<longrightarrow>
         fst (verifyV1 config pl1 req1 io)
           = Inr (invalid ''insufficient_amount'' (p_sender (pv1_payload pl1))))
      \<and> (\<forall>a p q. amount txInfo = Some a \<and> a \<noteq> [] \<and> BigInt a = Inr p
                    \<and> BigInt (maxAmountRequired req1) = Inr q \<longrightarrow>
            (p < q \<longrightarrow> fst (verifyV1 config pl1 req1 io)
                          = Inr (invalid ''insufficient_amount'' (p_sender (pv1_payload pl1))))
            \<and> (q \<le> p \<longrightarrow> fst (verifyV1 config pl1 req1 io)
                          = Inr (verifyAssetV1 txInfo req1 (p_sender (pv1_payload pl1)))))"
      unfolding reaches_amount_verifyV1 [OF r]
      by (auto simp: verifyAmountV1_def truthy_def)
  qed
  from v2 v1 verifyAsset_reason verifyAssetV1_reason show ?thesis by blast
qed

theorem amount_check_compares_integers_witness:
  "reachesAmountCheck (testConfig True (Inr (Some (validTxInfo\<lparr>amount := Some ''2000000''\<rparr>))) (Inr None))
     validPayload validRequirements ((), []) (validTxInfo\<lparr>amount := Some ''2000000''\<rparr>)
   \<and> reachesAmountCheckV1 (testConfig True (Inr (Some (validTxInfo\<lparr>amount := Some ''2000000''\<rparr>))) (Inr None))
     validPayloadV1 validRequirementsV1 ((), []) (validTxInfo\<lparr>amount := Some ''2000000''\<rparr>)
   \<and> BigInt ''2000000'' = Inr 2000000 \<and> BigInt (r_amount validRequirements) = Inr 1000000
   \<and> BigInt (maxAmountRequired validRequirementsV1) = Inr 1000000
   \<and> (1000000 :: int) \<le> 2000000
   \<and> fst (verify (testConfig True (Inr (Some (validTxInfo\<lparr>amount := Some ''2000000''\<rparr>))) (Inr None))
            validPayload validRequirements ((), [])) = Inr (valid senderAddress)
   \<and> fst (verifyV1 (testConfig True (Inr (Some (validTxInfo\<lparr>amount := Some ''2000000''\<rparr>))) (Inr None))
            validPayloadV1 validRequirementsV1 ((), [])) = Inr (valid senderAddress)"
  using amount_check_compares_integers
          [of "testConfig True (Inr (Some (validTxInfo\<lparr>amount := Some ''2000000''\<rparr>))) (Inr None)"
              validPayload validRequirements "((), [])" "validTxInfo\<lparr>amount := Some ''2000000''\<rparr>"
              validPayloadV1 validRequirementsV1]
        overpaid_reaches overpaid_amounts overpaid_asset
        overpaid_reachesV1 overpaid_amountsV1 overpaid_assetV1
  by (simp add: validPayload_def validPayloadV1_def)

section \<open>C6: the asset check\<close>

lemma reaches_asset_verify:
  assumes "reachesAssetCheck config pl req io txInfo"
  shows "fst (verify config pl req io) = Inr (verifyAsset txInfo req (p_sender (payload pl)))"
  using assms reaches_amount_verify [of config pl req io txInfo]
  by (simp add: reachesAssetCheck_def verifyAmount_check verifyAsset_def checkAsset_def
        nativeOr_def truthy_def Let_def split: option.split)

lemma reaches_asset_verifyV1:
  assumes "reachesAssetCheckV1 config pl req io txInfo"
  shows "fst (verifyV1 config pl req io) = Inr (verifyAssetV1 txInfo req (p_sender (pv1_payload pl)))"
  using assms reaches_amount_verifyV1 [of config pl req io txInfo]
  by (simp add: reachesAssetCheckV1_def verifyAmountV1_check verifyAssetV1_def checkAssetV1_def
        nativeOr_def truthy_def Let_def split: option.split)

lemma token_required_reaches:
  "reachesAssetCheck (testConfig True (Inr (Some validTxInfo)) (Inr None))
     (validPayload\<lparr>accepted := validRequirements\<lparr>r_asset := Some ''9390:0:''\<rparr>\<rparr>)
     (validRequirements\<lparr>r_asset := Some ''9390:0:''\<rparr>) ((), []) validTxInfo"
  by code_simp

lemma token_required_reachesV1:
  "reachesAssetCheckV1 (testConfig True (Inr (Some validTxInfo)) (Inr None))
     validPayloadV1 (validRequirementsV1\<lparr>v1_asset := Some ''9390:0:''\<rparr>) ((), []) validTxInfo"
  by code_simp

text \<open>
  C6, as stated, fails on the V2 scheme: a requirement for the token \<open>9390:0:\<close> against
  a snapshot that has no asset is not an \<open>asset_mismatch\<close>; the payment is valid.
\<close>

theorem absent_asset_accepted_in_v2:
  "fst (verify (testConfig True (Inr (Some (validTxInfo\<lparr>asset := None\<rparr>))) (Inr None))
          (validPayload\<lparr>accepted := validRequirements\<lparr>r_asset := Some ''9390:0:''\<rparr>\<rparr>)
          (validRequirements\<lparr>r_asset := Some ''9390:0:''\<rparr>) ((), []))
   = Inr (valid senderAddress)"
  by code_simp

text \<open>
  C6, amended.  When a call reaches the asset check, V1 compares the two assets as
  strings, an absent one counting as the empty string (the native asset), and any
  difference is an \<open>asset_mismatch\<close>.  V2 makes the same comparison when the snapshot has
  an asset; when the snapshot has none, V2 skips the check and the payment is valid
  whatever asset is required.
\<close>

theorem asset_check_exact_equality:
  "(reachesAssetCheck config pl req io txInfo \<longrightarrow>
      fst (verify config pl req io) =
        Inr (case asset txInfo of
               None \<Rightarrow> valid (p_sender (payload pl))
             | Some a \<Rightarrow>
                 if nativeOr (r_asset req) = a then valid (p_sender (payload pl))
                 else invalid ''asset_mismatch'' (p_sender (payload pl))))
   \<and> (reachesAssetCheckV1 config pl1 req1 io txInfo \<longrightarrow>
      fst (verifyV1 config pl1 req1 io) =
        Inr (if nativeOr (v1_asset req1) = nativeOr (asset txInfo)
             then valid (p_sender (pv1_payload pl1))
             else invalid ''asset_mismatch'' (p_sender (pv1_payload pl1))))"
proof (intro conjI impI)
  assume "reachesAssetCheck config pl req io txInfo"
  then show "fst (verify config pl req io) =
        Inr (case asset txInfo of
               None \<Rightarrow> valid (p_sender (payload pl))
             | Some a \<Rightarrow>
                 if nativeOr (r_asset req) = a then valid (p_sender (payload pl))
                 else invalid ''asset_mismatch'' (p_sender (payload pl)))"
    by (simp add: reaches_asset_verify verifyAsset_def nativeOr_def truthy_def Let_def
          split: option.split)
next
  assume "reachesAssetCheckV1 config pl1 req1 io txInfo"
  then show "fst (verifyV1 config pl1 req1 io) =
        Inr (if nativeOr (v1_asset req1) = nativeOr (asset txInfo)
             then valid (p_sender (pv1_payload pl1))
             else invalid ''asset_mismatch'' (p_sender (pv1_payload pl1)))"
    by (simp add: reaches_asset_verifyV1 verifyAssetV1_def nativeOr_def truthy_def Let_def
          split: option.split)
qed

theorem asset_check_exact_equality_witness:
  "reachesAssetCheck (testConfig True (Inr (Some validTxInfo)) (Inr None))
     (validPayload\<lparr>accepted := validRequirements\<lparr>r_asset := Some ''9390:0:''\<rparr>\<rparr>)
     (validRequirements\<lparr>r_asset := Some ''9390:0:''\<rparr>) ((), []) validTxInfo
   \<and> reachesAssetCheckV1 (testConfig True (Inr (Some validTxInfo)) (Inr None))
     validPayloadV1 (validRequirementsV1\<lparr>v1_asset := Some ''9390:0:''\<rparr>) ((), []) validTxInfo
   \<and> fst (verify (testConfig True (Inr (Some validTxInfo)) (Inr None))
            (validPayload\<lparr>accepted := validRequirements\<lparr>r_asset := Some ''9390:0:''\<rparr>\<rparr>)
            (validRequirements\<lparr>r_asset := Some ''9390:0:''\<rparr>) ((), []))
     = Inr (invalid ''asset_mismatch'' senderAddress)
   \<and> fst (verifyV1 (testConfig True (Inr (Some validTxInfo)) (Inr None))
            validPayloadV1 (validRequirementsV1\<lparr>v1_asset := Some ''9390:0:''\<rparr>) ((), []))
     = Inr (invalid ''asset_mismatch'' senderAddress)"
  using asset_check_exact_equality
          [of "testConfig True (Inr (Some validTxInfo)) (Inr None)"
              "validPayload\<lparr>accepted := validRequirements\<lparr>r_asset := Some ''9390:0:''\<rparr>\<rparr>"
              "validRequirements\<lparr>r_asset := Some ''9390:0:''\<rparr>" "((), [])" validTxInfo
              validPayloadV1 "validRequirementsV1\<lparr>v1_asset := Some ''9390:0:''\<rparr>"]
        token_required_reaches token_required_reachesV1
  by (simp add: validTxInfo_def validPayload_def validPayloadV1_def nativeOr_def)

section \<open>The polling loops\<close>

lemma node_getTransactionStatus_time:
  "snd (node_getTransactionStatus g h t) = t + int (callDuration g)"
  by (simp add: node_getTransactionStatus_def split: sum.split option.split)

lemma client_getTransactionStatus_time:
  "snd (client_getTransactionStatus c h t) = t + int (sdk_callDuration c)"
  by (simp add: client_getTransactionStatus_def Let_def split: sum.split option.split)

text \<open>
  What the loop returns is what its last lookup returned, and a lookup made before the
  timeout ends the loop only with an absent or a terminal result.
\<close>

lemma pollLoop_last_lookup:
  "\<exists>u. t \<le> u \<and> pollLoop g h s ms t = node_getTransactionStatus g h u
       \<and> (u - s < ms \<longrightarrow>
            (case fst (node_getTransactionStatus g h u) of
               None \<Rightarrow> True
             | Some st \<Rightarrow> terminal (status st)))"
proof (induction g h s ms t rule: pollLoop.induct)
  case (1 g h s ms t)
  show ?case
  proof (cases "t - s < ms")
    case False
    then have "pollLoop g h s ms t = node_getTransactionStatus g h t"
      by (simp add: pollLoop.simps)
    with False show ?thesis by auto
  next
    case True
    show ?thesis
    proof (cases "fst (node_getTransactionStatus g h t)")
      case None
      with True have "pollLoop g h s ms t = node_getTransactionStatus g h t"
        by (simp add: pollLoop.simps prod_eq_iff)
      with None show ?thesis by auto
    next
      case (Some st)
      show ?thesis
      proof (cases "terminal (status st)")
        case True
        with \<open>t - s < ms\<close> Some have "pollLoop g h s ms t = node_getTransactionStatus g h t"
          by (auto simp: pollLoop.simps prod_eq_iff terminal_def)
        with Some True show ?thesis by auto
      next
        case False
        then have nf: "status st \<noteq> Finalized" "status st \<noteq> Failed"
          by (simp_all add: terminal_def)
        from "1.IH" [OF True Some nf]
        obtain u where u: "snd (node_getTransactionStatus g h t) + 2000 \<le> u"
          "pollLoop g h s ms (snd (node_getTransactionStatus g h t) + 2000)
             = node_getTransactionStatus g h u"
          "u - s < ms \<longrightarrow>
            (case fst (node_getTransactionStatus g h u) of
               None \<Rightarrow> True
             | Some st \<Rightarrow> terminal (status st))"
          by blast
        from True Some nf
        have "pollLoop g h s ms t = pollLoop g h s ms (snd (node_getTransactionStatus g h t) + 2000)"
          by (subst pollLoop.simps) simp
        moreover from u(1) have "t \<le> u"
          by (simp add: node_getTransactionStatus_time)
        ultimately show ?thesis using u(2,3) by auto
      qed
    qed
  qed
qed

lemma client_waitLoop_last_lookup:
  "\<exists>u. t \<le> u
       \<and> client_waitLoop c h s ms t = lastLookup c h u
       \<and> (u - s < ms \<longrightarrow>
            (case fst (client_getTransactionStatus c h u) of
               Inl e \<Rightarrow> True
             | Inr info \<Rightarrow> terminal (ti_status info)))"
proof (induction c h s ms t rule: client_waitLoop.induct)
  case (1 c h s ms t)
  show ?case
  proof (cases "t - s < ms")
    case False
    then have "client_waitLoop c h s ms t = lastLookup c h t"
      by (simp add: client_waitLoop.simps lastLookup_def split: sum.split)
    with False show ?thesis by (intro exI [of _ t]) simp
  next
    case True
    show ?thesis
    proof (cases "fst (client_getTransactionStatus c h t)")
      case (Inl e)
      with True have "client_waitLoop c h s ms t = lastLookup c h t"
        by (simp add: client_waitLoop.simps lastLookup_def)
      with Inl show ?thesis by (intro exI [of _ t]) simp
    next
      case (Inr info)
      show ?thesis
      proof (cases "terminal (ti_status info)")
        case True
        with \<open>t - s < ms\<close> Inr have "client_waitLoop c h s ms t = lastLookup c h t"
          by (auto simp: client_waitLoop.simps terminal_def lastLookup_def)
        with Inr True show ?thesis by (intro exI [of _ t]) simp
      next
        case False
        then have nf: "\<not> (ti_status info = Finalized \<or> ti_status info = Failed)"
          by (simp add: terminal_def)
        from "1.IH" [OF True Inr nf]
        obtain u where u: "snd (client_getTransactionStatus c h t) + 2000 \<le> u"
          "client_waitLoop c h s ms (snd (client_getTransactionStatus c h t) + 2000)
             = lastLookup c h u"
          "u - s < ms \<longrightarrow>
            (case fst (client_getTransactionStatus c h u) of
               Inl e \<Rightarrow> True
             | Inr info \<Rightarrow> terminal (ti_status info))"
          by blast
        from True Inr nf
        have "client_waitLoop c h s ms t
                = client_waitLoop c h s ms (snd (client_getTransactionStatus c h t) + 2000)"
          by (subst client_waitLoop.simps) simp
        moreover from u(1) have "t \<le> u"
          by (simp add: client_getTransactionStatus_time)
        ultimately show ?thesis using u(2,3) by (intro exI [of _ u]) simp
      qed
    qed
  qed
qed

text \<open>
  A round that finds the timeout elapsed, or whose lookup is absent, a throw or terminal,
  ends the loop with the result of that lookup.
\<close>

lemma pollLoop_ends:
  assumes "ms \<le> t - s
           \<or> (case fst (node_getTransactionStatus g h t) of None \<Rightarrow> True
               | Some st \<Rightarrow> terminal (status st))"
  shows "pollLoop g h s ms t = node_getTransactionStatus g h t"
proof (cases "t - s < ms")
  case False
  then show ?thesis by (simp add: pollLoop.simps)
next
  case True
  with assms have "case fst (node_getTransactionStatus g h t) of None \<Rightarrow> True
               | Some st \<Rightarrow> terminal (status st)"
    by simp
  with True show ?thesis
    by (subst pollLoop.simps) (auto simp: terminal_def prod_eq_iff split: option.splits)
qed

lemma client_waitLoop_ends:
  assumes "ms \<le> t - s
           \<or> (case fst (client_getTransactionStatus c h t) of Inl e \<Rightarrow> True
               | Inr info \<Rightarrow> terminal (ti_status info))"
  shows "client_waitLoop c h s ms t = lastLookup c h t"
proof (cases "t - s < ms")
  case False
  then show ?thesis by (simp add: client_waitLoop.simps lastLookup_def split: sum.split)
next
  case True
  with assms have "case fst (client_getTransactionStatus c h t) of Inl e \<Rightarrow> True
               | Inr info \<Rightarrow> terminal (ti_status info)"
    by simp
  with True show ?thesis
    by (subst client_waitLoop.simps) (auto simp: terminal_def lastLookup_def split: sum.splits)
qed

section \<open>C7: what waitForFinalization returns at the timeout\<close>

lemma poll_never_terminal:
  assumes "\<forall>u. t \<le> u \<longrightarrow> (\<exists>st. fst (node_getTransactionStatus g h u) = Some st
                                \<and> \<not> terminal (status st))"
  shows "\<exists>u st. ms \<le> u - t \<and> pollForFinalization g h ms t = node_getTransactionStatus g h u
                \<and> fst (pollForFinalization g h ms t) = Some st \<and> \<not> terminal (status st)"
proof -
  from pollLoop_last_lookup [of t g h t ms]
  obtain u where u: "t \<le> u" "pollForFinalization g h ms t = node_getTransactionStatus g h u"
    "u - t < ms \<longrightarrow>
       (case fst (node_getTransactionStatus g h u) of
          None \<Rightarrow> True
        | Some st \<Rightarrow> terminal (status st))"
    unfolding pollForFinalization_def by blast
  from assms u(1) obtain st where st: "fst (node_getTransactionStatus g h u) = Some st"
    "\<not> terminal (status st)"
    by blast
  with u(3) have "ms \<le> u - t" by auto
  with u(2) st show ?thesis by auto
qed

lemma client_wait_never_terminal:
  assumes "\<forall>u. t \<le> u \<longrightarrow> (\<exists>info. fst (client_getTransactionStatus c h u) = Inr info
                                \<and> \<not> terminal (ti_status info))"
  shows "\<exists>u info. ms \<le> u - t \<and> client_waitForFinalization c h (Some ms) t = lastLookup c h u
                  \<and> fst (client_waitForFinalization c h (Some ms) t) = Inr (Some info)
                  \<and> \<not> terminal (ti_status info)"
proof -
  from client_waitLoop_last_lookup [of t c h t ms]
  obtain u where u: "t \<le> u" "client_waitForFinalization c h (Some ms) t = lastLookup c h u"
    "u - t < ms \<longrightarrow>
       (case fst (client_getTransactionStatus c h u) of
          Inl e \<Rightarrow> True
        | Inr info \<Rightarrow> terminal (ti_status info))"
    unfolding client_waitForFinalization_def option.case by blast
  from assms u(1) obtain info where info: "fst (client_getTransactionStatus c h u) = Inr info"
    "\<not> terminal (ti_status info)"
    by blast
  with u(3) have "ms \<le> u - t" by auto
  moreover from info(1) have "fst (lastLookup c h u) = Inr (Some info)"
    by (simp add: lastLookup_def)
  ultimately show ?thesis using u(2) info(2) by auto
qed

lemma committed_lookup:
  "fst (node_getTransactionStatus committedNode transactionHash u)
     = Some (mapTransactionStatus transactionHash \<lparr> item_status = SdkCommitted, outcome = None \<rparr>)
   \<and> \<not> terminal (status (mapTransactionStatus transactionHash
                             \<lparr> item_status = SdkCommitted, outcome = None \<rparr>))"
  by (simp add: node_getTransactionStatus_def committedNode_def mapTransactionStatus_def
        mapStatusEnum_def rejected_def terminal_def)

lemma committed_client_lookup:
  "\<exists>info. fst (client_getTransactionStatus committedSdk transactionHash u) = Inr info
          \<and> \<not> terminal (ti_status info)"
  by (simp add: client_getTransactionStatus_def committedSdk_def terminal_def)

lemma committed_poll:
  "map_option status (fst (pollForFinalization committedNode transactionHash 2000 0)) = Some Committed
   \<and> snd (pollForFinalization committedNode transactionHash 2000 0) = 2000"
  by code_simp

lemma committed_client_wait:
  "map_sum id (map_option ti_status)
     (fst (client_waitForFinalization committedSdk transactionHash (Some 2000) 0))
     = Inr (Some Committed)
   \<and> snd (client_waitForFinalization committedSdk transactionHash (Some 2000) 0) = 2000"
  by code_simp

text \<open>
  C7 does not hold of the code.  The interface of the node client documents
  \<open>waitForFinalization\<close> as returning \<open>null\<close> at the timeout, yet
  \<open>pollForFinalization\<close> and \<open>ConcordiumClient.waitForFinalization\<close> end, once the
  timeout has elapsed, with \<open>return this.getTransactionStatus(txHash)\<close>: against a node
  whose every answer from the start of the wait is a snapshot that is not terminal, the
  result for every timeout is the snapshot of a lookup made when the timeout had elapsed,
  in a state that is not terminal, and not an absent result.
\<close>

theorem non_terminal_snapshot_returned_at_timeout:
  "((\<forall>u. t \<le> u \<longrightarrow> (\<exists>st. fst (node_getTransactionStatus g h u) = Some st
                            \<and> \<not> terminal (status st)))
     \<longrightarrow> (\<exists>u st. ms \<le> u - t
                  \<and> pollForFinalization g h ms t = node_getTransactionStatus g h u
                  \<and> fst (pollForFinalization g h ms t) = Some st \<and> \<not> terminal (status st)))
   \<and> ((\<forall>u. t \<le> u \<longrightarrow> (\<exists>info. fst (client_getTransactionStatus c h u) = Inr info
                            \<and> \<not> terminal (ti_status info)))
     \<longrightarrow> (\<exists>u info. ms \<le> u - t
                  \<and> client_waitForFinalization c h (Some ms) t = lastLookup c h u
                  \<and> fst (client_waitForFinalization c h (Some ms) t) = Inr (Some info)
                  \<and> \<not> terminal (ti_status info)))"
proof (intro conjI impI)
  assume "\<forall>u. t \<le> u \<longrightarrow> (\<exists>st. fst (node_getTransactionStatus g h u) = Some st
                            \<and> \<not> terminal (status st))"
  then show "\<exists>u st. ms \<le> u - t
                  \<and> pollForFinalization g h ms t = node_getTransactionStatus g h u
                  \<and> fst (pollForFinalization g h ms t) = Some st \<and> \<not> terminal (status st)"
    by (rule poll_never_terminal)
next
  assume "\<forall>u. t \<le> u \<longrightarrow> (\<exists>info. fst (client_getTransactionStatus c h u) = Inr info
                            \<and> \<not> terminal (ti_status info))"
  then show "\<exists>u info. ms \<le> u - t
                  \<and> client_waitForFinalization c h (Some ms) t = lastLookup c h u
                  \<and> fst (client_waitForFinalization c h (Some ms) t) = Inr (Some info)
                  \<and> \<not> terminal (ti_status info)"
    by (rule client_wait_never_terminal)
qed

theorem non_terminal_snapshot_returned_at_timeout_witness:
  "(\<exists>st. fst (pollForFinalization committedNode transactionHash 2000 0) = Some st
         \<and> \<not> terminal (status st))
   \<and> (\<exists>info. fst (client_waitForFinalization committedSdk transactionHash (Some 2000) 0)
               = Inr (Some info)
            \<and> \<not> terminal (ti_status info))
   \<and> map_option status (fst (pollForFinalization committedNode transactionHash 2000 0))
       = Some Committed
   \<and> snd (pollForFinalization committedNode transactionHash 2000 0) = 2000
   \<and> map_sum id (map_option ti_status)
        (fst (client_waitForFinalization committedSdk transactionHash (Some 2000) 0))
       = Inr (Some Committed)"
proof -
  have every: "\<forall>u. 0 \<le> u \<longrightarrow>
      (\<exists>st. fst (node_getTransactionStatus committedNode transactionHash u) = Some st
            \<and> \<not> terminal (status st))"
    using committed_lookup by blast
  have client_every: "\<forall>u. 0 \<le> u \<longrightarrow>
      (\<exists>info. fst (client_getTransactionStatus committedSdk transactionHash u) = Inr info
              \<and> \<not> terminal (ti_status info))"
    using committed_client_lookup by blast
  from non_terminal_snapshot_returned_at_timeout
         [of 0 committedNode transactionHash 2000 committedSdk] every client_every
  have "(\<exists>st. fst (pollForFinalization committedNode transactionHash 2000 0) = Some st
         \<and> \<not> terminal (status st))
   \<and> (\<exists>info. fst (client_waitForFinalization committedSdk transactionHash (Some 2000) 0)
               = Inr (Some info)
            \<and> \<not> terminal (ti_status info))"
    by blast
  with committed_poll committed_client_wait show ?thesis by simp
qed

section \<open>C2: a rejected transaction\<close>

text \<open>
  The mapping of \<open>getTransactionStatus\<close> and the polling that uses it report a
  rejected transaction as failed, whatever its raw status.
\<close>

lemma rejected_mapped_to_failed:
  "rejected (outcome st) \<Longrightarrow> status (mapTransactionStatus h st) = Failed"
  by (auto simp: mapTransactionStatus_def mapStatusEnum_def rejected_def Let_def
      split: option.splits)

lemma rejected_lookup_failed:
  assumes "getBlockItemStatus g h t = Inr (Some st)" and "rejected (outcome st)"
  shows "map_option status (fst (node_getTransactionStatus g h t)) = Some Failed"
  using assms by (simp add: node_getTransactionStatus_def rejected_mapped_to_failed)

lemma rejected_poll_failed:
  assumes "\<forall>u. t \<le> u \<longrightarrow> (\<exists>st. getBlockItemStatus g h u = Inr (Some st) \<and> rejected (outcome st))"
  shows "map_option status (fst (pollForFinalization g h ms t)) = Some Failed"
proof -
  from pollLoop_last_lookup [of t g h t ms]
  obtain u where u: "t \<le> u" "pollForFinalization g h ms t = node_getTransactionStatus g h u"
    unfolding pollForFinalization_def by blast
  from assms u(1) obtain st where "getBlockItemStatus g h u = Inr (Some st)" "rejected (outcome st)"
    by blast
  then show ?thesis
    using u(2) by (simp add: rejected_lookup_failed)
qed

lemma rejecting_subscription:
  "map_option status (fst (node_waitForFinalization rejectingNode ''tx123'' (Some 5000) 0))
     = Some Finalized"
  by code_simp

lemma rejecting_sdk_lookup:
  "map_sum id ti_status (fst (client_getTransactionStatus rejectingSdk ''tx123'' 0)) = Inr Finalized"
  by code_simp

text \<open>
  C2 does not hold of two paths of the code.  When the subscription of the gRPC client
  delivers a transaction whose summary is a rejection, \<open>waitForFinalization\<close> reports it
  finalized; and \<open>ConcordiumClient.getTransactionStatus\<close>, which does not read the
  outcome, reports a rejected transaction with the state of its raw status.
\<close>

theorem rejection_reported_as_raw_status:
  "(\<forall>subscribe res t'.
       waitForTransactionFinalization g = Some subscribe
       \<and> subscribe h ms t = (Inr (Some res), t')
       \<and> result_outcome (finalized_summary res) = Reject
     \<longrightarrow> map_option status (fst (node_waitForFinalization g h (Some ms) t)) = Some Finalized)
   \<and> (\<forall>b. sdk_getBlockItemStatus c h t = Inr (Some b) \<and> sdk_rejected b
     \<longrightarrow> map_sum id ti_status (fst (client_getTransactionStatus c h t))
           = Inr (case sdk_status b of
                    SdkFinalized \<Rightarrow> Finalized
                  | SdkCommitted \<Rightarrow> Committed
                  | Received \<Rightarrow> Pending))"
proof (intro conjI allI impI)
  fix subscribe res t'
  assume "waitForTransactionFinalization g = Some subscribe
       \<and> subscribe h ms t = (Inr (Some res), t')
       \<and> result_outcome (finalized_summary res) = Reject"
  then show "map_option status (fst (node_waitForFinalization g h (Some ms) t)) = Some Finalized"
    by (simp add: node_waitForFinalization_def finalizedInfo_def)
next
  fix b
  assume "sdk_getBlockItemStatus c h t = Inr (Some b) \<and> sdk_rejected b"
  then show "map_sum id ti_status (fst (client_getTransactionStatus c h t))
           = Inr (case sdk_status b of
                    SdkFinalized \<Rightarrow> Finalized
                  | SdkCommitted \<Rightarrow> Committed
                  | Received \<Rightarrow> Pending)"
    by (simp add: client_getTransactionStatus_def Let_def)
qed

theorem rejection_reported_as_raw_status_witness:
  "result_outcome rejectedSummary = Reject
   \<and> map_option status (fst (node_waitForFinalization rejectingNode ''tx123'' (Some 5000) 0))
       = Some Finalized
   \<and> map_sum id ti_status (fst (client_getTransactionStatus rejectingSdk ''tx123'' 0))
       = Inr Finalized"
  using rejection_reported_as_raw_status
          [of rejectingNode "''tx123''" 5000 0 rejectingSdk]
  by (simp add: rejectingNode_def rejectingSdk_def rejectedSummary_def)

section \<open>C10: the states ConcordiumClient reports\<close>

lemma client_lookup_cases:
  "(\<exists>e. sdk_getBlockItemStatus c h t = Inl e \<and> fst (client_getTransactionStatus c h t) = Inl e)
   \<or> (\<exists>info. fst (client_getTransactionStatus c h t) = Inr info \<and> ti_status info \<noteq> Failed)"
  by (cases "sdk_getBlockItemStatus c h t")
     (auto simp: client_getTransactionStatus_def Let_def split: option.split sdk_status.split)

lemma client_as_node_lookup:
  "(\<exists>e. fst (getTransactionStatus (concordiumClientAsNodeClient c) h t) = Inl e)
   \<or> (\<exists>txInfo. fst (getTransactionStatus (concordiumClientAsNodeClient c) h t) = Inr (Some txInfo)
               \<and> status txInfo \<noteq> Failed)"
  using client_lookup_cases [of c h t]
  by (cases "client_getTransactionStatus c h t")
     (auto simp: concordiumClientAsNodeClient_def asConcordiumTransactionInfo_def)

lemma check_reasons:
  "checkScheme a b = Fail r \<Longrightarrow> r = ''unsupported_scheme''"
  "checkNetwork a b = Fail r \<Longrightarrow> r = ''network_mismatch''"
  "checkNotPending txInfo = Fail r \<Longrightarrow> r = ''transaction_pending''"
  "checkFinalized rf txInfo = Fail r \<Longrightarrow> r = ''transaction_not_finalized''"
  "checkSender txInfo who = Fail r \<Longrightarrow> r = ''sender_mismatch''"
  "checkRecipient txInfo p = Fail r \<Longrightarrow> r = ''recipient_mismatch''"
  "checkAmount txInfo q = Fail r \<Longrightarrow> r = ''insufficient_amount''"
  "checkAmountV1 txInfo q = Fail r \<Longrightarrow> r = ''insufficient_amount''"
  "checkAsset txInfo x = Fail r \<Longrightarrow> r = ''asset_mismatch''"
  "checkAssetV1 txInfo x = Fail r \<Longrightarrow> r = ''asset_mismatch''"
  by (simp_all add: checkScheme_def checkNetwork_def checkNotPending_def checkFinalized_def
        checkSender_def checkRecipient_def checkAmount_def checkAmountV1_def compareAmounts_def
        checkAsset_def checkAssetV1_def
      split: if_splits option.splits sum.splits)

lemma reason_excluded:
  "(c = Fail r \<Longrightarrow> r = lit) \<Longrightarrow> lit \<noteq> a \<Longrightarrow> lit \<noteq> b \<Longrightarrow> r = a \<or> r = b \<Longrightarrow> c \<noteq> Fail r"
  by auto

lemma lookup_reasons:
  assumes "looked = Inl e \<or> (\<exists>txInfo. looked = Inr (Some txInfo) \<and> status txInfo \<noteq> Failed)"
  shows "checkExists looked \<noteq> Fail ''transaction_not_found''"
    and "checkExists looked \<noteq> Fail ''transaction_failed''"
    and "\<And>txInfo. looked = Inr (Some txInfo) \<Longrightarrow> checkNotFailed txInfo = Pass"
  using assms by (auto simp: checkExists_def checkNotFailed_def)

lemma failure_reasons:
  assumes "looked = Inl e \<or> (\<exists>txInfo. looked = Inr (Some txInfo) \<and> status txInfo \<noteq> Failed)"
    and "r = ''transaction_not_found'' \<or> r = ''transaction_failed''"
  shows "Fail r \<notin> set (orderedChecks rf pl req looked)"
proof
  assume "Fail r \<in> set (orderedChecks rf pl req looked)"
  then consider "checkScheme (scheme (accepted pl)) (scheme req) = Fail r"
    | "checkNetwork (network (accepted pl)) (network req) = Fail r"
    | "checkExists looked = Fail r"
    | txInfo where "looked = Inr (Some txInfo)"
        "checkNotFailed txInfo = Fail r \<or> checkNotPending txInfo = Fail r
         \<or> checkFinalized rf txInfo = Fail r \<or> checkSender txInfo (p_sender (payload pl)) = Fail r
         \<or> checkRecipient txInfo (payTo req) = Fail r
         \<or> checkAmount txInfo (r_amount req) = Fail r
         \<or> checkAsset txInfo (r_asset req) = Fail r"
    by (auto simp: orderedChecks_def split: sum.splits option.splits)
  then show False
  proof cases
    case 1
    have "checkScheme (scheme (accepted pl)) (scheme req) \<noteq> Fail r"
      by (rule reason_excluded [OF check_reasons(1) _ _ assms(2)]) simp_all
    with 1 show False by simp
  next
    case 2
    have "checkNetwork (network (accepted pl)) (network req) \<noteq> Fail r"
      by (rule reason_excluded [OF check_reasons(2) _ _ assms(2)]) simp_all
    with 2 show False by simp
  next
    case 3
    with lookup_reasons(1,2) [OF assms(1)] assms(2) show False by auto
  next
    case (4 txInfo)
    have "checkNotFailed txInfo \<noteq> Fail r"
      using lookup_reasons(3) [OF assms(1) 4(1)] by simp
    moreover have "checkNotPending txInfo \<noteq> Fail r"
      by (rule reason_excluded [OF check_reasons(3) _ _ assms(2)]) simp_all
    moreover have "checkFinalized rf txInfo \<noteq> Fail r"
      by (rule reason_excluded [OF check_reasons(4) _ _ assms(2)]) simp_all
    moreover have "checkSender txInfo (p_sender (payload pl)) \<noteq> Fail r"
      by (rule reason_excluded [OF check_reasons(5) _ _ assms(2)]) simp_all
    moreover have "checkRecipient txInfo (payTo req) \<noteq> Fail r"
      by (rule reason_excluded [OF check_reasons(6) _ _ assms(2)]) simp_all
    moreover have "checkAmount txInfo (r_amount req) \<noteq> Fail r"
      by (rule reason_excluded [OF check_reasons(7) _ _ assms(2)]) simp_all
    moreover have "checkAsset txInfo (r_asset req) \<noteq> Fail r"
      by (rule reason_excluded [OF check_reasons(9) _ _ assms(2)]) simp_all
    ultimately show False using 4(2) by simp
  qed
qed

lemma failure_reasonsV1:
  assumes "looked = Inl e \<or> (\<exists>txInfo. looked = Inr (Some txInfo) \<and> status txInfo \<noteq> Failed)"
    and "r = ''transaction_not_found'' \<or> r = ''transaction_failed''"
  shows "Fail r \<notin> set (orderedChecksV1 rf pl req looked)"
proof
  assume "Fail r \<in> set (orderedChecksV1 rf pl req looked)"
  then consider "checkScheme (pv1_scheme pl) (v1_scheme req) = Fail r"
    | "checkNetwork (pv1_network pl) (v1_network req) = Fail r"
    | "checkExists looked = Fail r"
    | txInfo where "looked = Inr (Some txInfo)"
        "checkNotFailed txInfo = Fail r \<or> checkNotPending txInfo = Fail r
         \<or> checkFinalized rf txInfo = Fail r \<or> checkSender txInfo (p_sender (pv1_payload pl)) = Fail r
         \<or> checkRecipient txInfo (v1_payTo req) = Fail r
         \<or> checkAmountV1 txInfo (maxAmountRequired req) = Fail r
         \<or> checkAssetV1 txInfo (v1_asset req) = Fail r"
    by (auto simp: orderedChecksV1_def split: sum.splits option.splits)
  then show False
  proof cases
    case 1
    have "checkScheme (pv1_scheme pl) (v1_scheme req) \<noteq> Fail r"
      by (rule reason_excluded [OF check_reasons(1) _ _ assms(2)]) simp_all
    with 1 show False by simp
  next
    case 2
    have "checkNetwork (pv1_network pl) (v1_network req) \<noteq> Fail r"
      by (rule reason_excluded [OF check_reasons(2) _ _ assms(2)]) simp_all
    with 2 show False by simp
  next
    case 3
    with lookup_reasons(1,2) [OF assms(1)] assms(2) show False by auto
  next
    case (4 txInfo)
    have "checkNotFailed txInfo \<noteq> Fail r"
      using lookup_reasons(3) [OF assms(1) 4(1)] by simp
    moreover have "checkNotPending txInfo \<noteq> Fail r"
      by (rule reason_excluded [OF check_reasons(3) _ _ assms(2)]) simp_all
    moreover have "checkFinalized rf txInfo \<noteq> Fail r"
      by (rule reason_excluded [OF check_reasons(4) _ _ assms(2)]) simp_all
    moreover have "checkSender txInfo (p_sender (pv1_payload pl)) \<noteq> Fail r"
      by (rule reason_excluded [OF check_reasons(5) _ _ assms(2)]) simp_all
    moreover have "checkRecipient txInfo (v1_payTo req) \<noteq> Fail r"
      by (rule reason_excluded [OF check_reasons(6) _ _ assms(2)]) simp_all
    moreover have "checkAmountV1 txInfo (maxAmountRequired req) \<noteq> Fail r"
      by (rule reason_excluded [OF check_reasons(8) _ _ assms(2)]) simp_all
    moreover have "checkAssetV1 txInfo (v1_asset req) \<noteq> Fail r"
      by (rule reason_excluded [OF check_reasons(10) _ _ assms(2)]) simp_all
    ultimately show False using 4(2) by simp
  qed
qed

lemma client_verify_reasons:
  assumes "nodeClient config = concordiumClientAsNodeClient c"
    and "fst (verify config pl req io) = Inr vr"
    and "r = ''transaction_not_found'' \<or> r = ''transaction_failed''"
  shows "invalidReason vr \<noteq> Some r"
proof
  assume r: "invalidReason vr = Some r"
  let ?looked = "lookedUp config (p_txHash (payload pl)) io"
  from client_as_node_lookup [of c "p_txHash (payload pl)" "fst io"] assms(1)
  have shape: "(\<exists>e. ?looked = Inl e)
               \<or> (\<exists>txInfo. ?looked = Inr (Some txInfo) \<and> status txInfo \<noteq> Failed)"
    by (simp add: lookedUp_def)
  from firstFailure_reason [OF assms(2) [unfolded verify_checks]] r
  have "Fail r \<in> set (orderedChecks (requireFinalization config) pl req ?looked)"
    by (auto split: if_splits)
  moreover from shape assms(3)
  have "Fail r \<notin> set (orderedChecks (requireFinalization config) pl req ?looked)"
    using failure_reasons by blast
  ultimately show False by simp
qed

lemma client_verifyV1_reasons:
  assumes "nodeClient config = concordiumClientAsNodeClient c"
    and "fst (verifyV1 config pl req io) = Inr vr"
    and "r = ''transaction_not_found'' \<or> r = ''transaction_failed''"
  shows "invalidReason vr \<noteq> Some r"
proof
  assume r: "invalidReason vr = Some r"
  let ?looked = "lookedUp config (p_txHash (pv1_payload pl)) io"
  from client_as_node_lookup [of c "p_txHash (pv1_payload pl)" "fst io"] assms(1)
  have shape: "(\<exists>e. ?looked = Inl e)
               \<or> (\<exists>txInfo. ?looked = Inr (Some txInfo) \<and> status txInfo \<noteq> Failed)"
    by (simp add: lookedUp_def)
  from firstFailure_reason [OF assms(2) [unfolded verifyV1_checks]] r
  have "Fail r \<in> set (orderedChecksV1 (requireFinalization config) pl req ?looked)"
    by (auto split: if_splits)
  moreover from shape assms(3)
  have "Fail r \<notin> set (orderedChecksV1 (requireFinalization config) pl req ?looked)"
    using failure_reasonsV1 by blast
  ultimately show False by simp
qed

lemma unknown_to_sdk:
  "fst (verify (newConfig (concordiumClientAsNodeClient emptySdk) None None)
          validPayload validRequirements (0, []))
   = Inr (invalid ''transaction_pending'' senderAddress)"
  by code_simp

lemma unknown_to_sdkV1:
  "fst (verifyV1 (newConfig (concordiumClientAsNodeClient emptySdk) None None)
          validPayloadV1 validRequirementsV1 (0, []))
   = Inr (invalid ''transaction_pending'' senderAddress)"
  by code_simp

text \<open>
  C10.  \<open>ConcordiumClient.getTransactionStatus\<close> either throws what the SDK threw or
  returns an object whose status is pending, committed or finalized: never failed, and
  never an absent result.  A transaction unknown to the node gives a pending snapshot
  with empty sender, recipient and amount; a known one gives the state of its raw status,
  whether or not its outcome is a rejection.  So \<open>verify\<close> (V2 and V1) over this client
  never gives \<open>transaction_not_found\<close> nor \<open>transaction_failed\<close>.
\<close>

theorem concordium_client_never_failed_nor_absent:
  "((\<exists>e. sdk_getBlockItemStatus c h t = Inl e \<and> fst (client_getTransactionStatus c h t) = Inl e)
     \<or> (\<exists>info. fst (client_getTransactionStatus c h t) = Inr info
               \<and> (ti_status info = Pending \<or> ti_status info = Committed
                    \<or> ti_status info = Finalized)))
   \<and> (sdk_getBlockItemStatus c h t = Inr None \<longrightarrow>
        fst (client_getTransactionStatus c h t)
          = Inr \<lparr> ti_txHash = h, ti_status = Pending, ti_sender = [], ti_recipient = Some [],
                  ti_amount = Some [], ti_contractIndex = None, ti_contractSubindex = None,
                  ti_error = None \<rparr>)
   \<and> (\<forall>b. sdk_getBlockItemStatus c h t = Inr (Some b) \<longrightarrow>
          map_sum id ti_status (fst (client_getTransactionStatus c h t))
            = Inr (case sdk_status b of
                     SdkFinalized \<Rightarrow> Finalized
                   | SdkCommitted \<Rightarrow> Committed
                   | Received \<Rightarrow> Pending))
   \<and> (\<forall>vr. nodeClient config = concordiumClientAsNodeClient c
            \<and> fst (verify config pl req io) = Inr vr \<longrightarrow>
          invalidReason vr \<noteq> Some ''transaction_not_found''
          \<and> invalidReason vr \<noteq> Some ''transaction_failed'')
   \<and> (\<forall>vr. nodeClient config = concordiumClientAsNodeClient c
            \<and> fst (verifyV1 config pl1 req1 io) = Inr vr \<longrightarrow>
          invalidReason vr \<noteq> Some ''transaction_not_found''
          \<and> invalidReason vr \<noteq> Some ''transaction_failed'')"
proof (intro conjI allI impI)
  from client_lookup_cases [of c h t]
  show "(\<exists>e. sdk_getBlockItemStatus c h t = Inl e \<and> fst (client_getTransactionStatus c h t) = Inl e)
     \<or> (\<exists>info. fst (client_getTransactionStatus c h t) = Inr info
               \<and> (ti_status info = Pending \<or> ti_status info = Committed
                    \<or> ti_status info = Finalized))"
  proof
    assume "\<exists>e. sdk_getBlockItemStatus c h t = Inl e \<and> fst (client_getTransactionStatus c h t) = Inl e"
    then show ?thesis by (rule disjI1)
  next
    assume "\<exists>info. fst (client_getTransactionStatus c h t) = Inr info \<and> ti_status info \<noteq> Failed"
    then obtain info where i: "fst (client_getTransactionStatus c h t) = Inr info"
      "ti_status info \<noteq> Failed" by blast
    from i(2) have "ti_status info = Pending \<or> ti_status info = Committed
                    \<or> ti_status info = Finalized"
      by (cases "ti_status info") simp_all
    with i(1) show ?thesis by blast
  qed
next
  assume "sdk_getBlockItemStatus c h t = Inr None"
  then show "fst (client_getTransactionStatus c h t)
          = Inr \<lparr> ti_txHash = h, ti_status = Pending, ti_sender = [], ti_recipient = Some [],
                  ti_amount = Some [], ti_contractIndex = None, ti_contractSubindex = None,
                  ti_error = None \<rparr>"
    by (simp add: client_getTransactionStatus_def)
next
  fix b
  assume "sdk_getBlockItemStatus c h t = Inr (Some b)"
  then show "map_sum id ti_status (fst (client_getTransactionStatus c h t))
            = Inr (case sdk_status b of
                     SdkFinalized \<Rightarrow> Finalized
                   | SdkCommitted \<Rightarrow> Committed
                   | Received \<Rightarrow> Pending)"
    by (simp add: client_getTransactionStatus_def Let_def)
next
  fix vr
  assume a: "nodeClient config = concordiumClientAsNodeClient c
            \<and> fst (verify config pl req io) = Inr vr"
  show "invalidReason vr \<noteq> Some ''transaction_not_found''"
    by (rule client_verify_reasons [OF conjunct1 [OF a] conjunct2 [OF a]]) simp
  show "invalidReason vr \<noteq> Some ''transaction_failed''"
    by (rule client_verify_reasons [OF conjunct1 [OF a] conjunct2 [OF a]]) simp
next
  fix vr
  assume a: "nodeClient config = concordiumClientAsNodeClient c
            \<and> fst (verifyV1 config pl1 req1 io) = Inr vr"
  show "invalidReason vr \<noteq> Some ''transaction_not_found''"
    by (rule client_verifyV1_reasons [OF conjunct1 [OF a] conjunct2 [OF a]]) simp
  show "invalidReason vr \<noteq> Some ''transaction_failed''"
    by (rule client_verifyV1_reasons [OF conjunct1 [OF a] conjunct2 [OF a]]) simp
qed

theorem concordium_client_never_failed_nor_absent_witness:
  "sdk_getBlockItemStatus emptySdk ''abc123'' 0 = Inr None
   \<and> fst (client_getTransactionStatus emptySdk ''abc123'' 0)
       = Inr \<lparr> ti_txHash = ''abc123'', ti_status = Pending, ti_sender = [], ti_recipient = Some [],
               ti_amount = Some [], ti_contractIndex = None, ti_contractSubindex = None,
               ti_error = None \<rparr>
   \<and> nodeClient (newConfig (concordiumClientAsNodeClient emptySdk) None None)
       = concordiumClientAsNodeClient emptySdk
   \<and> fst (verify (newConfig (concordiumClientAsNodeClient emptySdk) None None)
            validPayload validRequirements (0, []))
       = Inr (invalid ''transaction_pending'' senderAddress)
   \<and> fst (verifyV1 (newConfig (concordiumClientAsNodeClient emptySdk) None None)
            validPayloadV1 validRequirementsV1 (0, []))
       = Inr (invalid ''transaction_pending'' senderAddress)
   \<and> invalidReason (invalid ''transaction_pending'' senderAddress) \<noteq> Some ''transaction_not_found''"
  using concordium_client_never_failed_nor_absent
          [of emptySdk "''abc123''" 0 "newConfig (concordiumClientAsNodeClient emptySdk) None None"
              validPayload validRequirements "(0, [])" validPayloadV1 validRequirementsV1]
        unknown_to_sdk unknown_to_sdkV1
  by (simp add: emptySdk_def newConfig_def)

end
